theory Spec2Isabelle
  imports Main "HOL-Library.AList"
begin

section \<open>Python values and strings\<close>

text \<open>
  The values that travel through the statistics collector are Python objects of type
  \<^verbatim>\<open>Any\<close>. The collector never computes with a float, it only carries it, so the
  representation of floats is the type parameter \<open>'f\<close>.
\<close>

datatype 'f py_value =
    None_value
  | Bool_value bool
  | Int_value int
  | Float_value 'f
  | Str_value string

datatype error = AssertionError

type_synonym 'a result = "error + 'a"

text \<open>
  A Python \<^verbatim>\<open>str\<close> is a sequence of code points; a \<open>char\<close> is read as a code point
  below 256. \<^verbatim>\<open>str.isspace\<close> holds on these for 0x09 to 0x0D, 0x1C to 0x20, 0x85 and
  0xA0; \<^verbatim>\<open>str.strip()\<close> removes exactly such characters from both ends.
\<close>

definition isspace :: "char \<Rightarrow> bool" where
  "isspace c =
     (let n = (of_char c :: nat)
      in (9 \<le> n \<and> n \<le> 13) \<or> (28 \<le> n \<and> n \<le> 32) \<or> n = 133 \<or> n = 160)"

definition strip :: "string \<Rightarrow> string" where
  "strip s = rev (dropWhile isspace (rev (dropWhile isspace s)))"

text \<open>
  \<^verbatim>\<open>s.split(",")\<close>: every comma separates two entries, so a string with \<open>n\<close> commas has
  \<open>n + 1\<close> entries, empty ones included.
\<close>

fun split_comma :: "string \<Rightarrow> string list" where
  "split_comma [] = [[]]"
| "split_comma (c # cs) =
     (if c = CHR '','' then [] # split_comma cs
      else (case split_comma cs of
              [] \<Rightarrow> [[c]]
            | w # ws \<Rightarrow> (c # w) # ws))"

text \<open>\<^verbatim>\<open>",".join(ws)\<close>, used to say what the entries of a split are.\<close>

fun join_comma :: "string list \<Rightarrow> string" where
  "join_comma [] = []"
| "join_comma [w] = w"
| "join_comma (w # v # ws) = w @ CHR '','' # join_comma (v # ws)"

section \<open>Runtime variables and output variables\<close>

text \<open>
  Modelled from the spec: the enumeration \<^verbatim>\<open>RuntimeVariable\<close> of
  \<^verbatim>\<open>pynguin.utils.statistics.statistics\<close> is not among the sources. The members are the
  ones \<^verbatim>\<open>searchstatistics.py\<close> refers to; the \<^verbatim>\<open>name\<close> of a member of a Python
  enumeration is its identifier.
\<close>

datatype RuntimeVariable =
    Length
  | Size
  | Coverage
  | Fitness
  | CoverageTimeline
  | SizeTimeline
  | LengthTimeline
  | TotalExceptionsTimeline
  | Random_Seed
  | Total_time

fun rv_name :: "RuntimeVariable \<Rightarrow> string" where
  "rv_name Length = ''Length''"
| "rv_name Size = ''Size''"
| "rv_name Coverage = ''Coverage''"
| "rv_name Fitness = ''Fitness''"
| "rv_name CoverageTimeline = ''CoverageTimeline''"
| "rv_name SizeTimeline = ''SizeTimeline''"
| "rv_name LengthTimeline = ''LengthTimeline''"
| "rv_name TotalExceptionsTimeline = ''TotalExceptionsTimeline''"
| "rv_name Random_Seed = ''Random_Seed''"
| "rv_name Total_time = ''total_time''"

text \<open>
  Modelled from the spec: \<^verbatim>\<open>OutputVariable\<close> of
  \<^verbatim>\<open>pynguin.utils.statistics.statisticsbackend\<close> is not among the sources; the spec
  describes it as an immutable \<open>(name, value)\<close> pair.
\<close>

record 'f OutputVariable =
  ov_name :: string
  ov_value :: "'f py_value"

text \<open>
  A Python \<^verbatim>\<open>Dict[str, \<dots>]\<close> keeps its keys in insertion order; assigning to a key that
  is present replaces the value in place. That is an association list under
  \<^const>\<open>AList.update\<close>, read with \<^const>\<open>map_of\<close>.
\<close>

type_synonym 'a dict = "(string \<times> 'a) list"

section \<open>Configuration\<close>

text \<open>
  Modelled from the spec: \<^verbatim>\<open>pynguin.configuration\<close> is not among the sources. The
  collector reads three entries of \<^verbatim>\<open>config.INSTANCE\<close>: the selected backend, the
  random seed and the requested output-variable names, a comma-separated string that
  may be absent or empty.
\<close>

datatype StatisticsBackend = NONE | CONSOLE | CSV

record 'f configuration =
  statistics_backend :: StatisticsBackend
  seed :: "'f py_value"
  cfg_output_variables :: "string option"

subsection \<open>The requested names\<close>

definition get_all_output_variable_names :: "string list" where
  "get_all_output_variable_names = [''TARGET_CLASS'', ''criterion'', rv_name Coverage]"

text \<open>
  \<^verbatim>\<open>not config.INSTANCE.output_variables\<close> is true for \<^verbatim>\<open>None\<close> and for the empty
  string.
\<close>

definition get_output_variable_names :: "'f configuration \<Rightarrow> string list" where
  "get_output_variable_names cfg =
     (case cfg_output_variables cfg of
        None \<Rightarrow> [] @ get_all_output_variable_names
      | Some s \<Rightarrow>
          if s = [] then [] @ get_all_output_variable_names
          else fold (\<lambda>entry variable_names. variable_names @ [strip entry]) (split_comma s) [])"

section \<open>Chromosomes\<close>

text \<open>
  Modelled from the spec: \<^verbatim>\<open>pynguin.testsuite.testsuitechromosome\<close> and
  \<^verbatim>\<open>pynguin.ga.chromosome\<close> are not among the sources. The spec gives a test-suite
  chromosome the derived attributes \<^verbatim>\<open>size\<close>, \<^verbatim>\<open>total_length_of_test_cases\<close>,
  \<^verbatim>\<open>coverage\<close> and \<^verbatim>\<open>fitness\<close>, the four the collector reads.
\<close>

record 'f TestSuiteChromosome =
  size_tsc :: int
  total_length_of_test_cases :: int
  coverage :: 'f
  fitness :: 'f

text \<open>
  What \<^verbatim>\<open>current_individual\<close> can receive: a test-suite chromosome, or anything
  else (\<^verbatim>\<open>isinstance(individual, tsc.TestSuiteChromosome)\<close> is false).
\<close>

datatype 'f individual =
    Test_suite "'f TestSuiteChromosome"
  | Other_individual

section \<open>Output-variable factories\<close>

subsection \<open>Chromosome factories\<close>

text \<open>
  The four nested classes of \<^verbatim>\<open>SearchStatistics\<close> that derive from
  \<^verbatim>\<open>ChromosomeOutputVariableFactory\<close>; \<open>cf_variable\<close> is the runtime variable
  each passes to \<^verbatim>\<open>super().__init__\<close>, \<open>get_data\<close> is its method of that name.
\<close>

datatype ChromosomeOutputVariableFactory =
    ChromosomeLengthOutputVariableFactory
  | ChromosomeSizeOutputVariableFactory
  | ChromosomeCoverageOutputVariableFactory
  | ChromosomeFitnessOutputVariableFactory

fun cf_variable :: "ChromosomeOutputVariableFactory \<Rightarrow> RuntimeVariable" where
  "cf_variable ChromosomeLengthOutputVariableFactory = Length"
| "cf_variable ChromosomeSizeOutputVariableFactory = Size"
| "cf_variable ChromosomeCoverageOutputVariableFactory = Coverage"
| "cf_variable ChromosomeFitnessOutputVariableFactory = Fitness"

fun get_data :: "ChromosomeOutputVariableFactory \<Rightarrow> 'f TestSuiteChromosome \<Rightarrow> 'f py_value" where
  "get_data ChromosomeLengthOutputVariableFactory individual =
     Int_value (total_length_of_test_cases individual)"
| "get_data ChromosomeSizeOutputVariableFactory individual = Int_value (size_tsc individual)"
| "get_data ChromosomeCoverageOutputVariableFactory individual =
     Float_value (coverage individual)"
| "get_data ChromosomeFitnessOutputVariableFactory individual =
     Float_value (fitness individual)"

text \<open>
  Modelled from the spec: the base class \<^verbatim>\<open>ChromosomeOutputVariableFactory\<close> of
  \<^verbatim>\<open>pynguin.utils.statistics.outputvariablefactory\<close> is not among the sources. By the
  spec a scalar factory computes its value from the chromosome and the value is stored
  keyed by the variable's name.
\<close>

definition get_variable ::
  "ChromosomeOutputVariableFactory \<Rightarrow> 'f TestSuiteChromosome \<Rightarrow> 'f OutputVariable" where
  "get_variable factory individual =
     \<lparr>ov_name = rv_name (cf_variable factory), ov_value = get_data factory individual\<rparr>"

subsection \<open>Sequence factories\<close>

text \<open>
  The classes of the registered sequence factories: the three nested classes of
  \<^verbatim>\<open>SearchStatistics\<close> that derive from \<^verbatim>\<open>SequenceOutputVariableFactory\<close>, and
  \<^verbatim>\<open>DirectSequenceOutputVariableFactory\<close>, the class of the object that
  \<^verbatim>\<open>DirectSequenceOutputVariableFactory.get_integer\<close> builds.
\<close>

datatype sequence_class =
    CoverageSequenceOutputVariableFactory
  | SizeSequenceOutputVariableFactory
  | LengthSequenceOutputVariableFactory
  | DirectSequenceOutputVariableFactory

text \<open>
  Modelled from the spec: \<^verbatim>\<open>SequenceOutputVariableFactory\<close> and
  \<^verbatim>\<open>DirectSequenceOutputVariableFactory\<close> of
  \<^verbatim>\<open>pynguin.utils.statistics.outputvariablefactory\<close> are not among the sources. By the
  spec a sequence factory is an accumulator: a time series to which
  \<^verbatim>\<open>current_individual\<close> appends the current value and to which a value set directly is
  appended, and which expands into one output variable per list position, named
  \<^verbatim>\<open>CoverageTimeline_1\<close>, \<^verbatim>\<open>CoverageTimeline_2\<close> and so on.
\<close>

record 'f SequenceOutputVariableFactory =
  sf_variable :: RuntimeVariable
  sf_class :: sequence_class
  sf_values :: "'f py_value list"

text \<open>
  Modelled from the spec: the class \<^verbatim>\<open>DirectSequenceOutputVariableFactory\<close> is not
  among the sources, and the spec does not name it. The test
  \<^verbatim>\<open>isinstance(var, DirectSequenceOutputVariableFactory)\<close> holds for the object that
  \<^verbatim>\<open>get_integer\<close> of that class builds; the three nested classes are declared in the
  source as subclasses of \<^verbatim>\<open>SequenceOutputVariableFactory\<close> only, so it fails for
  them.
\<close>

definition is_direct :: "'f SequenceOutputVariableFactory \<Rightarrow> bool" where
  "is_direct var = (sf_class var = DirectSequenceOutputVariableFactory)"

text \<open>
  Modelled from the spec: \<^verbatim>\<open>get_value\<close> of a direct factory is not among the
  sources; the current value of a direct factory is taken to be the value set last, and
  the integer 0 of \<^verbatim>\<open>get_integer\<close> before any value is set. \<^verbatim>\<open>get_value\<close> of the
  three nested classes is the source's.
\<close>

definition get_value ::
  "'f SequenceOutputVariableFactory \<Rightarrow> 'f TestSuiteChromosome \<Rightarrow> 'f py_value" where
  "get_value factory individual =
     (case sf_class factory of
        CoverageSequenceOutputVariableFactory \<Rightarrow> Float_value (coverage individual)
      | SizeSequenceOutputVariableFactory \<Rightarrow> Int_value (size_tsc individual)
      | LengthSequenceOutputVariableFactory \<Rightarrow>
          Int_value (total_length_of_test_cases individual)
      | DirectSequenceOutputVariableFactory \<Rightarrow>
          (if sf_values factory = [] then Int_value 0 else last (sf_values factory)))"

text \<open>Modelled from the spec: \<^verbatim>\<open>update\<close> appends the current value to the time series.\<close>

definition update_factory ::
  "'f TestSuiteChromosome \<Rightarrow> 'f SequenceOutputVariableFactory \<Rightarrow> 'f SequenceOutputVariableFactory"
  where
  "update_factory individual factory =
     factory\<lparr>sf_values := sf_values factory @ [get_value factory individual]\<rparr>"

text \<open>
  Modelled from the spec: \<^verbatim>\<open>set_value\<close> routes a value set directly into the
  accumulator; by the spec it is appended to the sequence.
\<close>

definition set_value ::
  "'f py_value \<Rightarrow> 'f SequenceOutputVariableFactory \<Rightarrow> 'f SequenceOutputVariableFactory" where
  "set_value v factory = factory\<lparr>sf_values := sf_values factory @ [v]\<rparr>"

text \<open>\<^verbatim>\<open>str(n)\<close> for a natural number: its decimal digits, the most significant first.\<close>

definition digit_char :: "nat \<Rightarrow> char" where
  "digit_char d = ''0123456789'' ! d"

function str_nat :: "nat \<Rightarrow> string" where
  "str_nat n =
     (if 10 \<le> n then str_nat (n div 10) @ [digit_char (n mod 10)] else [digit_char n])"
  by pat_completeness auto
termination
  by (relation "measure id") auto

declare str_nat.simps [simp del]

text \<open>
  Modelled from the spec: \<^verbatim>\<open>get_output_variables\<close> of a sequence factory expands the
  time series into one output variable per list position, counted from 1.
\<close>

fun expand_from ::
  "string \<Rightarrow> nat \<Rightarrow> 'f py_value list \<Rightarrow> 'f OutputVariable list" where
  "expand_from base i [] = []"
| "expand_from base i (v # vs) =
     \<lparr>ov_name = base @ ''_'' @ str_nat i, ov_value = v\<rparr> # expand_from base (Suc i) vs"

definition sf_get_output_variables ::
  "'f SequenceOutputVariableFactory \<Rightarrow> 'f OutputVariable list" where
  "sf_get_output_variables factory =
     expand_from (rv_name (sf_variable factory)) 1 (sf_values factory)"

text \<open>
  Modelled from the spec: the constructor of \<^verbatim>\<open>SequenceOutputVariableFactory\<close>, which
  the three nested classes call with their runtime variable, and
  \<^verbatim>\<open>DirectSequenceOutputVariableFactory.get_integer(variable)\<close> are not among the
  sources; each is taken to start with an empty time series.
\<close>

definition new_sequence_factory ::
  "sequence_class \<Rightarrow> RuntimeVariable \<Rightarrow> 'f SequenceOutputVariableFactory" where
  "new_sequence_factory cls variable =
     \<lparr>sf_variable = variable, sf_class = cls, sf_values = []\<rparr>"

definition get_integer :: "RuntimeVariable \<Rightarrow> 'f SequenceOutputVariableFactory" where
  "get_integer variable = new_sequence_factory DirectSequenceOutputVariableFactory variable"

section \<open>Statistics backends and the log\<close>

text \<open>
  Modelled from the spec: the backends of
  \<^verbatim>\<open>pynguin.utils.statistics.statisticsbackend\<close> are not among the sources. The spec
  gives them one operation, \<^verbatim>\<open>write_data(mapping)\<close>; a backend is modelled by its kind
  and the mappings it has been handed, oldest first.
\<close>

datatype backend_class = ConsoleStatisticsBackend | CSVStatisticsBackend

record 'f AbstractStatisticsBackend =
  backend_class :: backend_class
  received :: "'f OutputVariable dict list"

definition new_backend :: "backend_class \<Rightarrow> 'f AbstractStatisticsBackend" where
  "new_backend cls = \<lparr>backend_class = cls, received = []\<rparr>"

definition write_data ::
  "'f OutputVariable dict \<Rightarrow> 'f AbstractStatisticsBackend \<Rightarrow> 'f AbstractStatisticsBackend"
  where
  "write_data data b = b\<lparr>received := received b @ [data]\<rparr>"

text \<open>The calls of \<^verbatim>\<open>self._logger\<close>, as a list of records, oldest first.\<close>

datatype log_level = DEBUG | INFO | WARNING | ERROR

type_synonym log_record = "log_level \<times> string"

section \<open>The statistics collector\<close>

text \<open>
  The attributes of a \<^verbatim>\<open>SearchStatistics\<close> object, and \<open>logged\<close>, what its methods
  have sent to the logger. The factories are referenced from their dictionaries only, so
  a factory that is mutated in place is replaced in its dictionary.
\<close>

record 'f SearchStatistics =
  backend :: "'f AbstractStatisticsBackend option"
  output_variables :: "'f OutputVariable dict"
  variable_factories :: "ChromosomeOutputVariableFactory dict"
  sequence_output_variable_factories :: "'f SequenceOutputVariableFactory dict"
  start_time :: int
  best_individual :: "'f TestSuiteChromosome option"
  logged :: "log_record list"

definition log :: "log_level \<Rightarrow> string \<Rightarrow> 'f SearchStatistics \<Rightarrow> 'f SearchStatistics" where
  "log level msg s = s\<lparr>logged := logged s @ [(level, msg)]\<rparr>"

definition initialise_backend :: "'f configuration \<Rightarrow> 'f AbstractStatisticsBackend option" where
  "initialise_backend cfg =
     (if statistics_backend cfg = CONSOLE then Some (new_backend ConsoleStatisticsBackend)
      else if statistics_backend cfg = CSV then Some (new_backend CSVStatisticsBackend)
      else None)"

definition init_factories :: "'f SearchStatistics \<Rightarrow> 'f SearchStatistics" where
  "init_factories s =
     s\<lparr>variable_factories :=
         AList.update (rv_name Fitness) ChromosomeFitnessOutputVariableFactory
           (AList.update (rv_name Coverage) ChromosomeCoverageOutputVariableFactory
             (AList.update (rv_name Size) ChromosomeSizeOutputVariableFactory
               (AList.update (rv_name Length) ChromosomeLengthOutputVariableFactory
                 (variable_factories s))))\<rparr>"

definition fill_sequence_output_variable_factories ::
  "'f SearchStatistics \<Rightarrow> 'f SearchStatistics" where
  "fill_sequence_output_variable_factories s =
     s\<lparr>sequence_output_variable_factories :=
         AList.update (rv_name TotalExceptionsTimeline) (get_integer TotalExceptionsTimeline)
           (AList.update (rv_name LengthTimeline)
              (new_sequence_factory LengthSequenceOutputVariableFactory LengthTimeline)
             (AList.update (rv_name SizeTimeline)
                (new_sequence_factory SizeSequenceOutputVariableFactory SizeTimeline)
               (AList.update (rv_name CoverageTimeline)
                  (new_sequence_factory CoverageSequenceOutputVariableFactory CoverageTimeline)
                 (sequence_output_variable_factories s))))\<rparr>"

text \<open>
  \<^verbatim>\<open>set_output_variable\<close>: the assertion fails on a registered sequence factory that
  is not a direct one, before anything is changed.
\<close>

definition set_output_variable ::
  "'f OutputVariable \<Rightarrow> 'f SearchStatistics \<Rightarrow> unit result \<times> 'f SearchStatistics" where
  "set_output_variable variable s =
     (case map_of (sequence_output_variable_factories s) (ov_name variable) of
        Some var \<Rightarrow>
          if is_direct var
          then (Inr (),
                s\<lparr>sequence_output_variable_factories :=
                    AList.update (ov_name variable) (set_value (ov_value variable) var)
                      (sequence_output_variable_factories s)\<rparr>)
          else (Inl AssertionError, s)
      | None \<Rightarrow>
          (Inr (),
           s\<lparr>output_variables :=
               AList.update (ov_name variable) variable (output_variables s)\<rparr>))"

definition set_output_variable_for_runtime_variable ::
  "RuntimeVariable \<Rightarrow> 'f py_value \<Rightarrow> 'f SearchStatistics \<Rightarrow> unit result \<times> 'f SearchStatistics"
  where
  "set_output_variable_for_runtime_variable variable v s =
     set_output_variable \<lparr>ov_name = rv_name variable, ov_value = v\<rparr> s"

text \<open>
  \<^verbatim>\<open>__init__\<close>; \<open>now\<close> is what \<^verbatim>\<open>time.time_ns()\<close> returns. An exception of the
  call that records the seed would leave the constructor.
\<close>

definition init :: "'f configuration \<Rightarrow> int \<Rightarrow> 'f SearchStatistics result" where
  "init cfg now =
     (let s0 = \<lparr>backend = initialise_backend cfg, output_variables = [],
                variable_factories = [], sequence_output_variable_factories = [],
                start_time = 0, best_individual = None, logged = []\<rparr>;
          s1 = init_factories s0
      in case set_output_variable_for_runtime_variable Random_Seed (seed cfg) s1 of
           (Inl e, s2) \<Rightarrow> Inl e
         | (Inr u, s2) \<Rightarrow>
             Inr ((fill_sequence_output_variable_factories s2)
                    \<lparr>start_time := now, best_individual := None\<rparr>))"

text \<open>
  The first loop of \<^verbatim>\<open>current_individual\<close>, over the values of
  \<^verbatim>\<open>_variable_factories\<close>: an exception of \<^verbatim>\<open>set_output_variable\<close> ends it.
\<close>

fun set_factory_variables ::
  "ChromosomeOutputVariableFactory list \<Rightarrow> 'f TestSuiteChromosome \<Rightarrow> 'f SearchStatistics
     \<Rightarrow> unit result \<times> 'f SearchStatistics" where
  "set_factory_variables [] individual s = (Inr (), s)"
| "set_factory_variables (variable_factory # rest) individual s =
     (case set_output_variable (get_variable variable_factory individual) s of
        (Inl e, s') \<Rightarrow> (Inl e, s')
      | (Inr u, s') \<Rightarrow> set_factory_variables rest individual s')"

text \<open>The second loop: every registered sequence factory is updated in place.\<close>

definition update_sequence_factories ::
  "'f TestSuiteChromosome \<Rightarrow> 'f SearchStatistics \<Rightarrow> 'f SearchStatistics" where
  "update_sequence_factories individual s =
     s\<lparr>sequence_output_variable_factories :=
         map (\<lambda>(k, seq_variable_factory). (k, update_factory individual seq_variable_factory))
           (sequence_output_variable_factories s)\<rparr>"

definition current_individual ::
  "'f individual \<Rightarrow> 'f SearchStatistics \<Rightarrow> unit result \<times> 'f SearchStatistics" where
  "current_individual individual s =
     (case backend s of
        None \<Rightarrow> (Inr (), s)
      | Some b \<Rightarrow>
          (case individual of
             Other_individual \<Rightarrow>
               (Inr (), log WARNING ''SearchStatistics expected a TestSuiteChromosome'' s)
           | Test_suite t \<Rightarrow>
               (case set_factory_variables (map snd (variable_factories s)) t
                       (log DEBUG ''Received individual'' s) of
                  (Inl e, s') \<Rightarrow> (Inl e, s')
                | (Inr u, s') \<Rightarrow> (Inr (), update_sequence_factories t s'))))"

text \<open>
  The loop of \<^verbatim>\<open>_get_output_variables\<close> over the requested names, with the
  dictionary \<^verbatim>\<open>variables\<close> built so far. A name that no source resolves ends the loop
  with the empty dictionary unless \<open>skip_missing\<close> is set.
\<close>

definition store_all :: "'f OutputVariable list \<Rightarrow> 'f OutputVariable dict \<Rightarrow> 'f OutputVariable dict"
  where
  "store_all vars variables = fold (\<lambda>var. AList.update (ov_name var) var) vars variables"

fun resolve_names ::
  "'f SearchStatistics \<Rightarrow> 'f TestSuiteChromosome \<Rightarrow> bool \<Rightarrow> string list
     \<Rightarrow> 'f OutputVariable dict \<Rightarrow> 'f OutputVariable dict \<times> 'f SearchStatistics" where
  "resolve_names s individual skip_missing [] variables = (variables, s)"
| "resolve_names s individual skip_missing (variable_name # rest) variables =
     (case map_of (output_variables s) variable_name of
        Some direct \<Rightarrow>
          resolve_names s individual skip_missing rest
            (AList.update variable_name direct variables)
      | None \<Rightarrow>
          (case map_of (variable_factories s) variable_name of
             Some factory \<Rightarrow>
               resolve_names s individual skip_missing rest
                 (AList.update variable_name (get_variable factory individual) variables)
           | None \<Rightarrow>
               (case map_of (sequence_output_variable_factories s) variable_name of
                  Some seq_factory \<Rightarrow>
                    resolve_names s individual skip_missing rest
                      (store_all (sf_get_output_variables seq_factory) variables)
                | None \<Rightarrow>
                    if skip_missing
                    then resolve_names s individual skip_missing rest
                           (AList.update variable_name
                              \<lparr>ov_name = variable_name, ov_value = Str_value []\<rparr> variables)
                    else ([],
                          log ERROR (''No obtained value for output variable '' @ variable_name)
                            s))))"

definition get_output_variables ::
  "'f configuration \<Rightarrow> 'f TestSuiteChromosome \<Rightarrow> bool \<Rightarrow> 'f SearchStatistics
     \<Rightarrow> 'f OutputVariable dict \<times> 'f SearchStatistics" where
  "get_output_variables cfg individual skip_missing s =
     resolve_names s individual skip_missing (get_output_variable_names cfg) []"

text \<open>\<^verbatim>\<open>write_statistics\<close>; \<open>now\<close> is what \<^verbatim>\<open>time.time_ns()\<close> returns.\<close>

definition write_statistics ::
  "'f configuration \<Rightarrow> int \<Rightarrow> 'f SearchStatistics \<Rightarrow> bool result \<times> 'f SearchStatistics" where
  "write_statistics cfg now s0 =
     (let s = log INFO ''Writing statistics'' s0
      in case backend s of
           None \<Rightarrow> (Inr False, s)
         | Some b \<Rightarrow>
             (let s1 = s\<lparr>output_variables :=
                          AList.update (rv_name Total_time)
                            \<lparr>ov_name = rv_name Total_time,
                             ov_value = Int_value (now - start_time s)\<rparr>
                            (output_variables s)\<rparr>
              in case best_individual s1 of
                   None \<Rightarrow>
                     (Inr False,
                      log ERROR
                        (''No statistics has been saved because Pynguin failed to generate any ''
                           @ ''test case'') s1)
                 | Some individual \<Rightarrow>
                     (case get_output_variables cfg individual False s1 of
                        (resolved, s2) \<Rightarrow>
                          (Inr True, s2\<lparr>backend := Some (write_data resolved b)\<rparr>))))"

subsection \<open>Sequences of operations\<close>

text \<open>
  The public operations of a collector, and a run of them on one object. An exception
  reaches the caller and leaves the object as it is at that point; the caller may go
  on using it.
\<close>

datatype 'f operation =
    Current_individual "'f individual"
  | Set_output_variable "'f OutputVariable"
  | Set_output_variable_for_runtime_variable RuntimeVariable "'f py_value"
  | Write_statistics int

datatype outcome = Raised error | Returned_none | Returned_bool bool

definition unit_outcome :: "unit result \<Rightarrow> outcome" where
  "unit_outcome r = (case r of Inl e \<Rightarrow> Raised e | Inr u \<Rightarrow> Returned_none)"

definition bool_outcome :: "bool result \<Rightarrow> outcome" where
  "bool_outcome r = (case r of Inl e \<Rightarrow> Raised e | Inr b \<Rightarrow> Returned_bool b)"

fun exec_op ::
  "'f configuration \<Rightarrow> 'f operation \<Rightarrow> 'f SearchStatistics \<Rightarrow> outcome \<times> 'f SearchStatistics"
  where
  "exec_op cfg (Current_individual individual) s =
     (case current_individual individual s of (r, s') \<Rightarrow> (unit_outcome r, s'))"
| "exec_op cfg (Set_output_variable variable) s =
     (case set_output_variable variable s of (r, s') \<Rightarrow> (unit_outcome r, s'))"
| "exec_op cfg (Set_output_variable_for_runtime_variable variable v) s =
     (case set_output_variable_for_runtime_variable variable v s of
        (r, s') \<Rightarrow> (unit_outcome r, s'))"
| "exec_op cfg (Write_statistics now) s =
     (case write_statistics cfg now s of (r, s') \<Rightarrow> (bool_outcome r, s'))"

fun run ::
  "'f configuration \<Rightarrow> 'f operation list \<Rightarrow> 'f SearchStatistics
     \<Rightarrow> outcome list \<times> 'f SearchStatistics" where
  "run cfg [] s = ([], s)"
| "run cfg (op # ops) s =
     (case exec_op cfg op s of
        (r, s') \<Rightarrow> (case run cfg ops s' of (rs, s'') \<Rightarrow> (r # rs, s'')))"

section \<open>Assertions\<close>

text \<open>
  Modelled from the spec: \<^verbatim>\<open>PrimitiveAssertion\<close> and \<^verbatim>\<open>FieldAssertion\<close> (and the
  base class \<^verbatim>\<open>Assertion\<close>) are not among the sources; by the spec every assertion has
  a \<^verbatim>\<open>source\<close>, which may be absent, and a \<^verbatim>\<open>value\<close>, and the field variant has a
  \<^verbatim>\<open>field\<close> name and \<^verbatim>\<open>owners\<close> in addition, which the tests leave absent by
  default. \<^verbatim>\<open>ComplexAssertion\<close> is in the sources: its constructor takes the source
  and the value. The classes are one tagged union here; the type \<open>'v\<close> is the variable
  reference, \<open>'a\<close> the expected value.
\<close>

datatype ('v, 'a) assertion =
    PrimitiveAssertion "'v option" 'a
  | FieldAssertion "'v option" 'a string "string list option"
  | ComplexAssertion "'v option" 'a

fun source :: "('v, 'a) assertion \<Rightarrow> 'v option" where
  "source (PrimitiveAssertion src v) = src"
| "source (FieldAssertion src v fld own) = src"
| "source (ComplexAssertion src v) = src"

fun value_of :: "('v, 'a) assertion \<Rightarrow> 'a" where
  "value_of (PrimitiveAssertion src v) = v"
| "value_of (FieldAssertion src v fld own) = v"
| "value_of (ComplexAssertion src v) = v"

text \<open>The class of an assertion object.\<close>

datatype assertion_class = Primitive_class | Field_class | Complex_class

fun class_of :: "('v, 'a) assertion \<Rightarrow> assertion_class" where
  "class_of (PrimitiveAssertion src v) = Primitive_class"
| "class_of (FieldAssertion src v fld own) = Field_class"
| "class_of (ComplexAssertion src v) = Complex_class"

text \<open>The two attributes of the field variant; no other variant has them.\<close>

fun field :: "('v, 'a) assertion \<Rightarrow> string option" where
  "field (FieldAssertion src v fld own) = Some fld"
| "field a = None"

fun owners :: "('v, 'a) assertion \<Rightarrow> string list option option" where
  "owners (FieldAssertion src v fld own) = Some own"
| "owners a = None"

text \<open>
  \<^verbatim>\<open>self._source.clone(new_test_case, offset) if self._source else None\<close>. The class of
  the variable references is not among the sources: the clone of a reference into a test
  case at an offset is the parameter \<open>clone_reference\<close>.
\<close>

definition clone_source ::
  "('v \<Rightarrow> 'tc \<Rightarrow> int \<Rightarrow> 'v) \<Rightarrow> 'v option \<Rightarrow> 'tc \<Rightarrow> int \<Rightarrow> 'v option" where
  "clone_source clone_reference src new_test_case offset =
     (case src of
        Some reference \<Rightarrow> Some (clone_reference reference new_test_case offset)
      | None \<Rightarrow> None)"

text \<open>
  Modelled from the spec: \<^verbatim>\<open>clone\<close> of \<^verbatim>\<open>FieldAssertion\<close> and of
  \<^verbatim>\<open>PrimitiveAssertion\<close> is not among the sources; by the spec it clones the source
  into the target test case at the offset when the source is present and copies the
  value, and the field and the owners of the field variant, unchanged. The equation of
  \<^verbatim>\<open>ComplexAssertion\<close> is the source's \<^verbatim>\<open>clone\<close>.
\<close>

fun clone ::
  "('v \<Rightarrow> 'tc \<Rightarrow> int \<Rightarrow> 'v) \<Rightarrow> ('v, 'a) assertion \<Rightarrow> 'tc \<Rightarrow> int \<Rightarrow> ('v, 'a) assertion"
  where
  "clone clone_reference (ComplexAssertion src v) new_test_case offset =
     ComplexAssertion (clone_source clone_reference src new_test_case offset) v"
| "clone clone_reference (FieldAssertion src v fld own) new_test_case offset =
     FieldAssertion (clone_source clone_reference src new_test_case offset) v fld own"
| "clone clone_reference (PrimitiveAssertion src v) new_test_case offset =
     PrimitiveAssertion (clone_source clone_reference src new_test_case offset) v"

text \<open>
  Modelled from the spec: \<^verbatim>\<open>AssertionVisitor\<close> of
  \<^verbatim>\<open>pynguin.assertion.assertionvisitor\<close> is not among the sources. A visitor has one
  method per variant; each returns nothing and may change the visitor's state \<open>'s\<close>.
\<close>

record ('v, 'a, 's) AssertionVisitor =
  visit_primitive_assertion :: "('v, 'a) assertion \<Rightarrow> 's \<Rightarrow> 's"
  visit_field_assertion :: "('v, 'a) assertion \<Rightarrow> 's \<Rightarrow> 's"
  visit_complex_assertion :: "('v, 'a) assertion \<Rightarrow> 's \<Rightarrow> 's"

text \<open>
  Modelled from the spec: \<^verbatim>\<open>accept\<close> of \<^verbatim>\<open>FieldAssertion\<close> and of
  \<^verbatim>\<open>PrimitiveAssertion\<close> is not among the sources; by the spec each variant invokes
  the visitor method matching its own variant. The equation of \<^verbatim>\<open>ComplexAssertion\<close>
  is the source's \<^verbatim>\<open>accept\<close>.
\<close>

fun accept :: "('v, 'a) assertion \<Rightarrow> ('v, 'a, 's) AssertionVisitor \<Rightarrow> 's \<Rightarrow> 's" where
  "accept (ComplexAssertion src v) visitor st =
     visit_complex_assertion visitor (ComplexAssertion src v) st"
| "accept (FieldAssertion src v fld own) visitor st =
     visit_field_assertion visitor (FieldAssertion src v fld own) st"
| "accept (PrimitiveAssertion src v) visitor st =
     visit_primitive_assertion visitor (PrimitiveAssertion src v) st"

text \<open>
  A visitor that records its calls, as the \<^verbatim>\<open>MagicMock\<close> of the tests does: its state
  is the list of the calls made, each the method and its argument, oldest first.
\<close>

datatype visitor_method =
    Visit_primitive_assertion
  | Visit_field_assertion
  | Visit_complex_assertion

definition recording_visitor ::
  "('v, 'a, (visitor_method \<times> ('v, 'a) assertion) list) AssertionVisitor" where
  "recording_visitor =
     \<lparr>visit_primitive_assertion = (\<lambda>a calls. calls @ [(Visit_primitive_assertion, a)]),
      visit_field_assertion = (\<lambda>a calls. calls @ [(Visit_field_assertion, a)]),
      visit_complex_assertion = (\<lambda>a calls. calls @ [(Visit_complex_assertion, a)])\<rparr>"

section \<open>Predicates on collector states\<close>

text \<open>
  The two factory dictionaries are filled by \<^verbatim>\<open>__init__\<close> and assigned nowhere else:
  in every collector the chromosome factories are the four of \<^verbatim>\<open>_init_factories\<close>,
  and the sequence factories are the four of
  \<^verbatim>\<open>_fill_sequence_output_variable_factories\<close>, each with the time series it has
  accumulated.
\<close>

definition registered :: "'f SearchStatistics \<Rightarrow> bool" where
  "registered s =
     (variable_factories s =
        [(''Length'', ChromosomeLengthOutputVariableFactory),
         (''Size'', ChromosomeSizeOutputVariableFactory),
         (''Coverage'', ChromosomeCoverageOutputVariableFactory),
         (''Fitness'', ChromosomeFitnessOutputVariableFactory)] \<and>
      map (\<lambda>(k, factory). (k, sf_variable factory, sf_class factory))
          (sequence_output_variable_factories s) =
        [(''CoverageTimeline'', CoverageTimeline, CoverageSequenceOutputVariableFactory),
         (''SizeTimeline'', SizeTimeline, SizeSequenceOutputVariableFactory),
         (''LengthTimeline'', LengthTimeline, LengthSequenceOutputVariableFactory),
         (''TotalExceptionsTimeline'', TotalExceptionsTimeline,
          DirectSequenceOutputVariableFactory)])"

text \<open>A name that one of the three sources of \<^verbatim>\<open>_get_output_variables\<close> resolves.\<close>

definition resolvable :: "'f SearchStatistics \<Rightarrow> string \<Rightarrow> bool" where
  "resolvable s variable_name =
     (map_of (output_variables s) variable_name \<noteq> None \<or>
      map_of (variable_factories s) variable_name \<noteq> None \<or>
      map_of (sequence_output_variable_factories s) variable_name \<noteq> None)"

text \<open>
  The names of the output variables into which the requested names that the sequence
  factories resolve expand.
\<close>

definition expansion_names :: "'f SearchStatistics \<Rightarrow> string list \<Rightarrow> string list" where
  "expansion_names s names =
     concat (map (\<lambda>variable_name.
        if map_of (output_variables s) variable_name = None \<and>
           map_of (variable_factories s) variable_name = None
        then (case map_of (sequence_output_variable_factories s) variable_name of
                Some seq_factory \<Rightarrow> map ov_name (sf_get_output_variables seq_factory)
              | None \<Rightarrow> [])
        else []) names)"

section \<open>Example objects\<close>

text \<open>
  A collector as \<^verbatim>\<open>__init__\<close> builds it for the CSV backend, after the search reported
  two individuals and \<^verbatim>\<open>Coverage\<close> was set directly, and with a best individual put in
  place; floats are stood for by integers here. The configurations request names of
  which \<^verbatim>\<open>Bogus\<close> is resolved by no source.
\<close>

definition example_suite :: "int TestSuiteChromosome" where
  "example_suite =
     \<lparr>size_tsc = 2, total_length_of_test_cases = 5, coverage = 1, fitness = 0\<rparr>"

definition example_collector :: "int SearchStatistics" where
  "example_collector =
     \<lparr>backend = Some \<lparr>backend_class = CSVStatisticsBackend, received = []\<rparr>,
      output_variables =
        [(''Random_Seed'', \<lparr>ov_name = ''Random_Seed'', ov_value = Int_value 3\<rparr>),
         (''Coverage'', \<lparr>ov_name = ''Coverage'', ov_value = Int_value 42\<rparr>)],
      variable_factories =
        [(''Length'', ChromosomeLengthOutputVariableFactory),
         (''Size'', ChromosomeSizeOutputVariableFactory),
         (''Coverage'', ChromosomeCoverageOutputVariableFactory),
         (''Fitness'', ChromosomeFitnessOutputVariableFactory)],
      sequence_output_variable_factories =
        [(''CoverageTimeline'',
          \<lparr>sf_variable = CoverageTimeline, sf_class = CoverageSequenceOutputVariableFactory,
           sf_values = [Float_value 0, Float_value 1]\<rparr>),
         (''SizeTimeline'',
          \<lparr>sf_variable = SizeTimeline, sf_class = SizeSequenceOutputVariableFactory,
           sf_values = [Int_value 1, Int_value 2]\<rparr>),
         (''LengthTimeline'',
          \<lparr>sf_variable = LengthTimeline, sf_class = LengthSequenceOutputVariableFactory,
           sf_values = [Int_value 4, Int_value 5]\<rparr>),
         (''TotalExceptionsTimeline'',
          \<lparr>sf_variable = TotalExceptionsTimeline,
           sf_class = DirectSequenceOutputVariableFactory,
           sf_values = [Int_value 0, Int_value 0]\<rparr>)],
      start_time = 100,
      best_individual = Some example_suite,
      logged = []\<rparr>"

definition example_configuration :: "int configuration" where
  "example_configuration =
     \<lparr>statistics_backend = CSV, seed = Int_value 3,
      cfg_output_variables = Some ''Coverage, Size ,CoverageTimeline''\<rparr>"

definition example_configuration_missing :: "int configuration" where
  "example_configuration_missing =
     \<lparr>statistics_backend = CSV, seed = Int_value 3,
      cfg_output_variables = Some ''Coverage,Bogus,Size''\<rparr>"

text \<open>The collector that \<^verbatim>\<open>__init__\<close> builds at time 100 when no backend is selected.\<close>

definition example_configuration_no_backend :: "int configuration" where
  "example_configuration_no_backend =
     \<lparr>statistics_backend = NONE, seed = Int_value 3, cfg_output_variables = None\<rparr>"

definition example_collector_no_backend :: "int SearchStatistics" where
  "example_collector_no_backend =
     \<lparr>backend = None,
      output_variables =
        [(''Random_Seed'', \<lparr>ov_name = ''Random_Seed'', ov_value = Int_value 3\<rparr>)],
      variable_factories =
        [(''Length'', ChromosomeLengthOutputVariableFactory),
         (''Size'', ChromosomeSizeOutputVariableFactory),
         (''Coverage'', ChromosomeCoverageOutputVariableFactory),
         (''Fitness'', ChromosomeFitnessOutputVariableFactory)],
      sequence_output_variable_factories =
        [(''CoverageTimeline'',
          \<lparr>sf_variable = CoverageTimeline, sf_class = CoverageSequenceOutputVariableFactory,
           sf_values = []\<rparr>),
         (''SizeTimeline'',
          \<lparr>sf_variable = SizeTimeline, sf_class = SizeSequenceOutputVariableFactory,
           sf_values = []\<rparr>),
         (''LengthTimeline'',
          \<lparr>sf_variable = LengthTimeline, sf_class = LengthSequenceOutputVariableFactory,
           sf_values = []\<rparr>),
         (''TotalExceptionsTimeline'',
          \<lparr>sf_variable = TotalExceptionsTimeline,
           sf_class = DirectSequenceOutputVariableFactory, sf_values = []\<rparr>)],
      start_time = 100,
      best_individual = None,
      logged = []\<rparr>"




section \<open>Splitting and stripping\<close>

lemma split_comma_nonempty: "split_comma s \<noteq> []"
  by (induction s) (auto split: list.splits)

lemma join_split_comma: "join_comma (split_comma s) = s"
proof (induction s)
  case Nil
  then show ?case by simp
next
  case (Cons c cs)
  obtain w ws where sp: "split_comma cs = w # ws"
    using split_comma_nonempty [of cs] by (cases "split_comma cs") auto
  show ?case
  proof (cases "c = CHR '',''")
    case True
    with Cons sp show ?thesis by simp
  next
    case False
    with Cons sp show ?thesis by (cases ws) auto
  qed
qed

lemma split_comma_no_comma: "w \<in> set (split_comma s) \<Longrightarrow> CHR '','' \<notin> set w"
  by (induction s arbitrary: w) (auto split: if_splits list.splits)

lemma length_split_comma: "length (split_comma s) = Suc (count_list s (CHR '',''))"
  by (induction s) (auto split: list.splits simp: split_comma_nonempty)

lemma fold_append_map: "fold (\<lambda>entry variable_names. variable_names @ [f entry]) xs acc = acc @ map f xs"
  by (induction xs arbitrary: acc) auto

lemma strip_decompose:
  "w = takeWhile isspace w @ strip w @ rev (takeWhile isspace (rev (dropWhile isspace w)))"
proof -
  let ?d = "dropWhile isspace w"
  have "rev ?d = takeWhile isspace (rev ?d) @ dropWhile isspace (rev ?d)" by simp
  then have "?d = rev (dropWhile isspace (rev ?d)) @ rev (takeWhile isspace (rev ?d))"
    by (metis rev_append rev_rev_ident)
  then have "?d = strip w @ rev (takeWhile isspace (rev ?d))" by (simp add: strip_def)
  moreover have "w = takeWhile isspace w @ ?d" by simp
  ultimately show ?thesis by metis
qed

lemma strip_hd: "strip w \<noteq> [] \<Longrightarrow> \<not> isspace (hd (strip w))"
proof -
  assume ne: "strip w \<noteq> []"
  let ?d = "dropWhile isspace w"
  have "?d = strip w @ rev (takeWhile isspace (rev ?d))"
    using strip_decompose [of w] by (metis same_append_eq takeWhile_dropWhile_id)
  with ne have "hd (strip w) = hd ?d" by (metis hd_append2)
  moreover have "?d \<noteq> []"
  proof
    assume e: "?d = []"
    have "strip w = []" unfolding strip_def e by simp
    with ne show False by simp
  qed
  ultimately show ?thesis by (metis hd_dropWhile)
qed

lemma strip_last: "strip w \<noteq> [] \<Longrightarrow> \<not> isspace (last (strip w))"
proof -
  assume ne: "strip w \<noteq> []"
  let ?r = "dropWhile isspace (rev (dropWhile isspace w))"
  from ne have "?r \<noteq> []" by (simp add: strip_def)
  then have "\<not> isspace (hd ?r)" by (rule hd_dropWhile)
  moreover have "last (strip w) = hd ?r" using \<open>?r \<noteq> []\<close> by (simp add: strip_def last_rev)
  ultimately show ?thesis by simp
qed


text \<open>
  Claim C10. When the configured list of output variables is absent or empty,
  \<^verbatim>\<open>_get_output_variable_names\<close> returns the default names \<^verbatim>\<open>TARGET_CLASS\<close>,
  \<^verbatim>\<open>criterion\<close>, \<^verbatim>\<open>Coverage\<close> in that order. Otherwise it returns the entries of the
  configured string in their order, each stripped of white space: there is one name per
  entry, the entries are the comma-free pieces that joined by commas give the string
  back, and each name is its entry without a leading and a trailing run of white space.
\<close>

theorem get_output_variable_names_default_or_split:
  "(cfg_output_variables cfg = None \<or> cfg_output_variables cfg = Some [] \<longrightarrow>
      get_output_variable_names cfg = [''TARGET_CLASS'', ''criterion'', ''Coverage'']) \<and>
   (\<forall>s. cfg_output_variables cfg = Some s \<and> s \<noteq> [] \<longrightarrow>
      get_output_variable_names cfg = map strip (split_comma s) \<and>
      length (get_output_variable_names cfg) = Suc (count_list s (CHR '','')) \<and>
      join_comma (split_comma s) = s \<and>
      (\<forall>w \<in> set (split_comma s).
         CHR '','' \<notin> set w \<and>
         (\<exists>l r. w = l @ strip w @ r \<and> list_all isspace l \<and> list_all isspace r) \<and>
         (strip w = [] \<or> (\<not> isspace (hd (strip w)) \<and> \<not> isspace (last (strip w))))))"
proof (intro conjI impI allI ballI)
  assume "cfg_output_variables cfg = None \<or> cfg_output_variables cfg = Some []"
  then show "get_output_variable_names cfg = [''TARGET_CLASS'', ''criterion'', ''Coverage'']"
    by (auto simp: get_output_variable_names_def get_all_output_variable_names_def)
next
  fix s assume a: "cfg_output_variables cfg = Some s \<and> s \<noteq> []"
  then show names: "get_output_variable_names cfg = map strip (split_comma s)"
    by (simp add: get_output_variable_names_def fold_append_map)
  show "length (get_output_variable_names cfg) = Suc (count_list s (CHR '',''))"
    by (simp add: names length_split_comma)
  show "join_comma (split_comma s) = s"
    by (rule join_split_comma)
next
  fix s w assume "w \<in> set (split_comma s)"
  then show "CHR '','' \<notin> set w"
    by (rule split_comma_no_comma)
next
  fix s w
  have "w = takeWhile isspace w @ strip w @ rev (takeWhile isspace (rev (dropWhile isspace w)))"
    by (rule strip_decompose)
  moreover have "list_all isspace (takeWhile isspace w)"
    by (simp add: list_all_iff) (metis set_takeWhileD)
  moreover have "list_all isspace (rev (takeWhile isspace (rev (dropWhile isspace w))))"
    by (simp add: list_all_iff) (metis set_takeWhileD)
  ultimately show "\<exists>l r. w = l @ strip w @ r \<and> list_all isspace l \<and> list_all isspace r"
    by blast
next
  fix s w
  show "strip w = [] \<or> (\<not> isspace (hd (strip w)) \<and> \<not> isspace (last (strip w)))"
    using strip_hd [of w] strip_last [of w] by blast
qed

theorem get_output_variable_names_witness:
  "get_output_variable_names
     \<lparr>statistics_backend = CSV, seed = (Int_value 3 :: unit py_value),
      cfg_output_variables = Some []\<rparr> = [''TARGET_CLASS'', ''criterion'', ''Coverage''] \<and>
   get_output_variable_names
     \<lparr>statistics_backend = CSV, seed = (Int_value 3 :: unit py_value),
      cfg_output_variables = Some '' Coverage ,Size,, x y ''\<rparr> =
     [''Coverage'', ''Size'', [], ''x y''] \<and>
   join_comma (split_comma '' Coverage ,Size,, x y '') = '' Coverage ,Size,, x y ''"
  using get_output_variable_names_default_or_split
          [of "\<lparr>statistics_backend = CSV, seed = (Int_value 3 :: unit py_value),
                cfg_output_variables = Some []\<rparr>"]
        get_output_variable_names_default_or_split
          [of "\<lparr>statistics_backend = CSV, seed = (Int_value 3 :: unit py_value),
                cfg_output_variables = Some '' Coverage ,Size,, x y ''\<rparr>"]
  by (simp add: strip_def isspace_def)

section \<open>What the operations leave alone\<close>

lemma log_fields [simp]:
  "backend (log l m s) = backend s"
  "output_variables (log l m s) = output_variables s"
  "variable_factories (log l m s) = variable_factories s"
  "sequence_output_variable_factories (log l m s) = sequence_output_variable_factories s"
  "start_time (log l m s) = start_time s"
  "best_individual (log l m s) = best_individual s"
  "logged (log l m s) = logged s @ [(l, m)]"
  by (simp_all add: log_def)

lemma registered_log [simp]: "registered (log l m s) = registered s"
  by (simp add: registered_def)

lemma resolvable_log [simp]: "resolvable (log l m s) n = resolvable s n"
  by (simp add: resolvable_def)

lemma update_same_view:
  "map_of al k = Some v \<Longrightarrow> h v' = h v \<Longrightarrow>
   map (\<lambda>(k, g). (k, h g)) (AList.update k v' al) = map (\<lambda>(k, g). (k, h g)) al"
  by (induction al) (auto split: if_splits)

lemma set_output_variable_frame:
  "backend (snd (set_output_variable v s)) = backend s"
  "variable_factories (snd (set_output_variable v s)) = variable_factories s"
  "start_time (snd (set_output_variable v s)) = start_time s"
  "best_individual (snd (set_output_variable v s)) = best_individual s"
  "logged (snd (set_output_variable v s)) = logged s"
  by (simp_all add: set_output_variable_def split: option.splits)

lemma set_output_variable_registered:
  assumes "registered s"
  shows "registered (snd (set_output_variable v s))"
proof (cases "map_of (sequence_output_variable_factories s) (ov_name v)")
  case None
  with assms show ?thesis by (simp add: set_output_variable_def registered_def)
next
  case (Some var)
  have "map (\<lambda>(k, g). (k, sf_variable g, sf_class g))
          (AList.update (ov_name v) (set_value (ov_value v) var)
             (sequence_output_variable_factories s)) =
        map (\<lambda>(k, g). (k, sf_variable g, sf_class g)) (sequence_output_variable_factories s)"
    using Some by (intro update_same_view) (simp_all add: set_value_def)
  with assms Some show ?thesis by (simp add: set_output_variable_def registered_def)
qed

lemma set_factory_variables_frame:
  "backend (snd (set_factory_variables fs t s)) = backend s \<and>
   variable_factories (snd (set_factory_variables fs t s)) = variable_factories s \<and>
   start_time (snd (set_factory_variables fs t s)) = start_time s \<and>
   best_individual (snd (set_factory_variables fs t s)) = best_individual s \<and>
   logged (snd (set_factory_variables fs t s)) = logged s"
proof (induction fs arbitrary: s)
  case Nil
  then show ?case by simp
next
  case (Cons f fs)
  obtain r s' where e: "set_output_variable (get_variable f t) s = (r, s')"
    by (cases "set_output_variable (get_variable f t) s")
  have fr: "backend s' = backend s" "variable_factories s' = variable_factories s"
    "start_time s' = start_time s" "best_individual s' = best_individual s"
    "logged s' = logged s"
    using set_output_variable_frame [of "get_variable f t" s] e by simp_all
  show ?case
  proof (cases r)
    case (Inl err)
    with e fr show ?thesis by simp
  next
    case (Inr u)
    with e fr Cons.IH [of s'] show ?thesis by simp
  qed
qed

lemma set_factory_variables_registered:
  "registered s \<Longrightarrow> registered (snd (set_factory_variables fs t s))"
proof (induction fs arbitrary: s)
  case Nil
  then show ?case by simp
next
  case (Cons f fs)
  obtain r s' where e: "set_output_variable (get_variable f t) s = (r, s')"
    by (cases "set_output_variable (get_variable f t) s")
  have reg: "registered s'"
    using set_output_variable_registered [OF Cons.prems, of "get_variable f t"] e by simp
  show ?case
  proof (cases r)
    case (Inl err)
    with e reg show ?thesis by simp
  next
    case (Inr u)
    with e Cons.IH [OF reg] show ?thesis by simp
  qed
qed

lemma update_sequence_factories_frame [simp]:
  "backend (update_sequence_factories t s) = backend s"
  "output_variables (update_sequence_factories t s) = output_variables s"
  "variable_factories (update_sequence_factories t s) = variable_factories s"
  "start_time (update_sequence_factories t s) = start_time s"
  "best_individual (update_sequence_factories t s) = best_individual s"
  "logged (update_sequence_factories t s) = logged s"
  by (simp_all add: update_sequence_factories_def)

lemma update_factory_view:
  "map (\<lambda>(k, g). (k, sf_variable g, sf_class g)) (map (\<lambda>(k, g). (k, update_factory t g)) al) =
   map (\<lambda>(k, g). (k, sf_variable g, sf_class g)) al"
  by (induction al) (auto simp: update_factory_def)

lemma update_sequence_factories_registered:
  "registered s \<Longrightarrow> registered (update_sequence_factories t s)"
  by (simp add: registered_def update_sequence_factories_def update_factory_view del: map_map)

lemma current_individual_frame:
  "backend (snd (current_individual i s)) = backend s \<and>
   variable_factories (snd (current_individual i s)) = variable_factories s \<and>
   start_time (snd (current_individual i s)) = start_time s \<and>
   best_individual (snd (current_individual i s)) = best_individual s"
proof (cases "backend s")
  case None
  then show ?thesis by (simp add: current_individual_def)
next
  case (Some b)
  show ?thesis
  proof (cases i)
    case Other_individual
    with Some show ?thesis by (simp add: current_individual_def)
  next
    case (Test_suite t)
    let ?r = "set_factory_variables (map snd (variable_factories s)) t
                (log DEBUG ''Received individual'' s)"
    obtain r s' where e: "?r = (r, s')" by (cases ?r)
    have "backend s' = backend s \<and> variable_factories s' = variable_factories s \<and>
          start_time s' = start_time s \<and> best_individual s' = best_individual s"
      using set_factory_variables_frame
              [of "map snd (variable_factories s)" t "log DEBUG ''Received individual'' s"] e
      by simp
    with e Some Test_suite show ?thesis
      by (cases r) (simp_all add: current_individual_def)
  qed
qed

lemma current_individual_registered:
  assumes "registered s"
  shows "registered (snd (current_individual i s))"
proof (cases "backend s")
  case None
  with assms show ?thesis by (simp add: current_individual_def)
next
  case (Some b)
  show ?thesis
  proof (cases i)
    case Other_individual
    with Some assms show ?thesis by (simp add: current_individual_def)
  next
    case (Test_suite t)
    let ?r = "set_factory_variables (map snd (variable_factories s)) t
                (log DEBUG ''Received individual'' s)"
    have reg: "registered (snd ?r)"
      using assms by (intro set_factory_variables_registered) simp
    show ?thesis
    proof (cases ?r)
      case (Pair r s')
      with reg have "registered s'" by simp
      with Pair Some Test_suite show ?thesis
        by (cases r) (simp_all add: current_individual_def update_sequence_factories_registered)
    qed
  qed
qed


section \<open>Resolving the requested names\<close>

lemma map_of_store_all:
  "n \<notin> ov_name ` set xs \<Longrightarrow> map_of (store_all xs vars) n = map_of vars n"
  unfolding store_all_def
  by (induction xs arbitrary: vars) (auto simp: update_conv')

lemma keys_store_all:
  "fst ` set (store_all xs vars) = ov_name ` set xs \<union> fst ` set vars"
  unfolding store_all_def
  by (induction xs arbitrary: vars) (auto simp: dom_update)

lemma expansion_names_Cons:
  "expansion_names s (m # ms) =
     (if map_of (output_variables s) m = None \<and> map_of (variable_factories s) m = None
      then (case map_of (sequence_output_variable_factories s) m of
              Some g \<Rightarrow> map ov_name (sf_get_output_variables g) | None \<Rightarrow> [])
      else []) @ expansion_names s ms"
  by (simp add: expansion_names_def)

lemma expansion_names_tail:
  "n \<notin> set (expansion_names s (a # ns)) \<Longrightarrow> n \<notin> set (expansion_names s ns)"
  apply (simp only: expansion_names_Cons set_append Un_iff)
  apply blast
  done

lemma expansion_names_head:
  "n \<notin> set (expansion_names s (a # ns)) \<Longrightarrow> map_of (output_variables s) a = None \<Longrightarrow>
   map_of (variable_factories s) a = None \<Longrightarrow>
   map_of (sequence_output_variable_factories s) a = Some g \<Longrightarrow>
   n \<notin> ov_name ` set (sf_get_output_variables g)"
  apply (simp only: expansion_names_Cons set_append Un_iff)
  apply simp
  done

lemma resolve_names_Cons_continue:
  "skip \<or> resolvable s a \<Longrightarrow>
   \<exists>vars'. resolve_names s ind skip (a # ns) vars = resolve_names s ind skip ns vars'"
  by (auto simp: resolvable_def split: option.splits)

lemma resolve_names_complete:
  "skip \<or> (\<forall>m \<in> set ns. resolvable s m) \<Longrightarrow> snd (resolve_names s ind skip ns vars) = s"
  by (induction ns arbitrary: vars) (auto simp: resolvable_def split: option.splits)

lemma resolve_names_abort:
  "\<not> skip \<Longrightarrow> \<exists>m \<in> set ns. \<not> resolvable s m \<Longrightarrow>
   fst (resolve_names s ind skip ns vars) = [] \<and>
   (\<exists>m \<in> set ns. \<not> resolvable s m \<and>
      snd (resolve_names s ind skip ns vars) =
        log ERROR (''No obtained value for output variable '' @ m) s)"
proof (induction ns arbitrary: vars)
  case Nil
  then show ?case by simp
next
  case (Cons a ns)
  show ?case
  proof (cases "resolvable s a")
    case True
    with Cons.prems have ex: "\<exists>m \<in> set ns. \<not> resolvable s m" by auto
    from True Cons.IH [OF Cons.prems(1) ex] show ?thesis
      by (auto simp: resolvable_def split: option.splits)
  next
    case False
    with Cons.prems(1) show ?thesis
      by (auto simp: resolvable_def split: option.splits)
  qed
qed

lemma resolve_names_lookup:
  "skip \<or> (\<forall>m \<in> set ns. resolvable s m) \<Longrightarrow> n \<notin> set (expansion_names s ns) \<Longrightarrow>
   map_of (fst (resolve_names s ind skip ns vars)) n =
     (if n \<in> set ns
      then (case map_of (output_variables s) n of
              Some direct \<Rightarrow> Some direct
            | None \<Rightarrow>
                (case map_of (variable_factories s) n of
                   Some factory \<Rightarrow> Some (get_variable factory ind)
                 | None \<Rightarrow>
                     (case map_of (sequence_output_variable_factories s) n of
                        Some seq_factory \<Rightarrow> map_of vars n
                      | None \<Rightarrow> Some \<lparr>ov_name = n, ov_value = Str_value []\<rparr>)))
      else map_of vars n)"
proof (induction ns arbitrary: vars)
  case Nil
  then show ?case by simp
next
  case (Cons a ns)
  from Cons.prems(1) have na: "skip \<or> (\<forall>m \<in> set ns. resolvable s m)" by auto
  have ne: "n \<notin> set (expansion_names s ns)"
    using Cons.prems(2) by (rule expansion_names_tail)
  note IH = Cons.IH [OF na ne]
  show ?case
  proof (cases "map_of (output_variables s) a")
    case (Some d)
    then show ?thesis using IH [of "AList.update a d vars"]
      by (auto simp: update_conv' split: option.splits)
  next
    case None
    note flat = None
    show ?thesis
    proof (cases "map_of (variable_factories s) a")
      case (Some f)
      with flat show ?thesis using IH [of "AList.update a (get_variable f ind) vars"]
        by (auto simp: update_conv' split: option.splits)
    next
      case None
      note chrom = None
      show ?thesis
      proof (cases "map_of (sequence_output_variable_factories s) a")
        case (Some g)
        have "n \<notin> ov_name ` set (sf_get_output_variables g)"
          using Cons.prems(2) flat chrom Some by (rule expansion_names_head)
        then have "map_of (store_all (sf_get_output_variables g) vars) n = map_of vars n"
          by (rule map_of_store_all)
        with flat chrom Some show ?thesis
          using IH [of "store_all (sf_get_output_variables g) vars"]
          by (auto split: option.splits)
      next
        case None
        with flat chrom Cons.prems(1) have skip by (auto simp: resolvable_def)
        with flat chrom None show ?thesis
          using IH [of "AList.update a \<lparr>ov_name = a, ov_value = Str_value []\<rparr> vars"]
          by (auto simp: update_conv' split: option.splits)
      qed
    qed
  qed
qed

lemma resolve_names_keys_mono:
  "skip \<or> (\<forall>m \<in> set ns. resolvable s m) \<Longrightarrow>
   fst ` set vars \<subseteq> fst ` set (fst (resolve_names s ind skip ns vars))"
proof (induction ns arbitrary: vars)
  case Nil
  then show ?case by simp
next
  case (Cons a ns)
  from Cons.prems have na: "skip \<or> (\<forall>m \<in> set ns. resolvable s m)" by auto
  note IH = Cons.IH [OF na]
  show ?case
  proof (cases "map_of (output_variables s) a")
    case (Some d)
    then show ?thesis using IH [of "AList.update a d vars"]
      by (auto simp: dom_update)
  next
    case None
    note flat = None
    show ?thesis
    proof (cases "map_of (variable_factories s) a")
      case (Some f)
      with flat show ?thesis using IH [of "AList.update a (get_variable f ind) vars"]
        by (auto simp: dom_update)
    next
      case None
      note chrom = None
      show ?thesis
      proof (cases "map_of (sequence_output_variable_factories s) a")
        case (Some g)
        with flat chrom show ?thesis
          using IH [of "store_all (sf_get_output_variables g) vars"]
          by (auto simp: keys_store_all)
      next
        case None
        with flat chrom Cons.prems have skip by (auto simp: resolvable_def)
        with flat chrom None show ?thesis
          using IH [of "AList.update a \<lparr>ov_name = a, ov_value = Str_value []\<rparr> vars"]
          by (auto simp: dom_update)
      qed
    qed
  qed
qed

lemma resolve_names_keys:
  "skip \<or> (\<forall>m \<in> set ns. resolvable s m) \<Longrightarrow> n \<in> set ns \<Longrightarrow>
   (case map_of (output_variables s) n of
      Some direct \<Rightarrow> {n}
    | None \<Rightarrow>
        (case map_of (variable_factories s) n of
           Some factory \<Rightarrow> {n}
         | None \<Rightarrow>
             (case map_of (sequence_output_variable_factories s) n of
                Some seq_factory \<Rightarrow> ov_name ` set (sf_get_output_variables seq_factory)
              | None \<Rightarrow> {n})))
   \<subseteq> fst ` set (fst (resolve_names s ind skip ns vars))"
proof (induction ns arbitrary: vars)
  case Nil
  then show ?case by simp
next
  case (Cons a ns)
  from Cons.prems(1) have na: "skip \<or> (\<forall>m \<in> set ns. resolvable s m)" by auto
  note mono = resolve_names_keys_mono [OF na]
  show ?case
  proof (cases "n = a")
    case False
    with Cons.prems(2) have "n \<in> set ns" by simp
    note IH = Cons.IH [OF na this]
    from Cons.prems(1) have "skip \<or> resolvable s a" by auto
    then obtain vars' where
      "resolve_names s ind skip (a # ns) vars = resolve_names s ind skip ns vars'"
      using resolve_names_Cons_continue by blast
    with IH [of vars'] show ?thesis by simp
  next
    case True
    show ?thesis
    proof (cases "map_of (output_variables s) a")
      case (Some d)
      then show ?thesis using True mono [of "AList.update a d vars"]
        by (auto simp: dom_update)
    next
      case None
      note flat = None
      show ?thesis
      proof (cases "map_of (variable_factories s) a")
        case (Some f)
        with flat show ?thesis using True mono [of "AList.update a (get_variable f ind) vars"]
          by (auto simp: dom_update)
      next
        case None
        note chrom = None
        show ?thesis
        proof (cases "map_of (sequence_output_variable_factories s) a")
          case (Some g)
          with flat chrom show ?thesis
            using True mono [of "store_all (sf_get_output_variables g) vars"]
            by (auto simp: keys_store_all)
        next
          case None
          with flat chrom Cons.prems have skip by (auto simp: resolvable_def)
          with flat chrom None show ?thesis
            using True mono [of "AList.update a \<lparr>ov_name = a, ov_value = Str_value []\<rparr> vars"]
            by (auto simp: dom_update)
        qed
      qed
    qed
  qed
qed

section \<open>Writing the statistics and runs of operations\<close>

lemma resolve_names_state_fields:
  "backend (snd (resolve_names s ind skip ns vars)) = backend s \<and>
   output_variables (snd (resolve_names s ind skip ns vars)) = output_variables s \<and>
   variable_factories (snd (resolve_names s ind skip ns vars)) = variable_factories s \<and>
   sequence_output_variable_factories (snd (resolve_names s ind skip ns vars)) =
     sequence_output_variable_factories s \<and>
   start_time (snd (resolve_names s ind skip ns vars)) = start_time s \<and>
   best_individual (snd (resolve_names s ind skip ns vars)) = best_individual s"
  by (induction ns arbitrary: vars) (auto split: option.splits)

lemma write_statistics_frame:
  "variable_factories (snd (write_statistics cfg now s)) = variable_factories s \<and>
   sequence_output_variable_factories (snd (write_statistics cfg now s)) =
     sequence_output_variable_factories s \<and>
   start_time (snd (write_statistics cfg now s)) = start_time s \<and>
   best_individual (snd (write_statistics cfg now s)) = best_individual s"
proof (cases "backend s")
  case None
  then show ?thesis by (simp add: write_statistics_def)
next
  case (Some b)
  show ?thesis
  proof (cases "best_individual s")
    case None
    with Some show ?thesis by (simp add: write_statistics_def Let_def)
  next
    case (Some ind)
    let ?s1 = "(log INFO ''Writing statistics'' s)
                 \<lparr>output_variables :=
                    AList.update (rv_name Total_time)
                      \<lparr>ov_name = rv_name Total_time,
                       ov_value = Int_value (now - start_time (log INFO ''Writing statistics'' s))\<rparr>
                      (output_variables (log INFO ''Writing statistics'' s))\<rparr>"
    obtain res s2 where e: "get_output_variables cfg ind False ?s1 = (res, s2)"
      by (cases "get_output_variables cfg ind False ?s1")
    have "variable_factories s2 = variable_factories s \<and>
          sequence_output_variable_factories s2 = sequence_output_variable_factories s \<and>
          start_time s2 = start_time s \<and> best_individual s2 = best_individual s"
      using resolve_names_state_fields [of ?s1 ind False "get_output_variable_names cfg" "[]"] e
      by (simp add: get_output_variables_def)
    with e Some \<open>backend s = Some b\<close> show ?thesis
      by (simp add: write_statistics_def Let_def)
  qed
qed

lemma write_statistics_registered:
  "registered s \<Longrightarrow> registered (snd (write_statistics cfg now s))"
  using write_statistics_frame [of cfg now s] by (simp add: registered_def)

lemma snd_case_outcome: "snd (case p of (r, x) \<Rightarrow> (f r, x)) = snd p"
  by (cases p) simp

lemma fst_case_outcome: "fst (case p of (r, x) \<Rightarrow> (f r, x)) = f (fst p)"
  by (cases p) simp

lemma exec_op_invariant:
  "best_individual (snd (exec_op cfg op s)) = best_individual s \<and>
   (registered s \<longrightarrow> registered (snd (exec_op cfg op s)))"
proof (cases op)
  case (Current_individual i)
  then show ?thesis
    using current_individual_frame [of i s] current_individual_registered [of s i]
    by (simp add: snd_case_outcome)
next
  case (Set_output_variable v)
  then show ?thesis
    using set_output_variable_frame(4) [of v s] set_output_variable_registered [of s v]
    by (simp add: snd_case_outcome)
next
  case (Set_output_variable_for_runtime_variable rv v)
  then show ?thesis
    using set_output_variable_frame(4) [of "\<lparr>ov_name = rv_name rv, ov_value = v\<rparr>" s]
      set_output_variable_registered [of s "\<lparr>ov_name = rv_name rv, ov_value = v\<rparr>"]
    by (simp add: snd_case_outcome set_output_variable_for_runtime_variable_def)
next
  case (Write_statistics t)
  then show ?thesis
    using write_statistics_frame [of cfg t s] write_statistics_registered [of s cfg t]
    by (simp add: snd_case_outcome)
qed

lemma run_invariant:
  "best_individual (snd (run cfg ops s)) = best_individual s \<and>
   (registered s \<longrightarrow> registered (snd (run cfg ops s)))"
proof (induction ops arbitrary: s)
  case Nil
  then show ?case by simp
next
  case (Cons op ops)
  obtain r s' where e: "exec_op cfg op s = (r, s')" by (cases "exec_op cfg op s")
  with exec_op_invariant [of cfg op s]
  have i: "best_individual s' = best_individual s" "registered s \<longrightarrow> registered s'"
    by simp_all
  obtain rs s'' where e2: "run cfg ops s' = (rs, s'')" by (cases "run cfg ops s'")
  with Cons.IH [of s'] i e show ?case by simp
qed

lemma write_statistics_no_best:
  "best_individual s = None \<Longrightarrow> fst (write_statistics cfg now s) = Inr False"
  by (simp add: write_statistics_def Let_def split: option.splits)

lemma run_write_outcomes:
  "best_individual s = None \<Longrightarrow> i < length ops \<Longrightarrow> ops ! i = Write_statistics t \<Longrightarrow>
   fst (run cfg ops s) ! i = Returned_bool False"
proof (induction ops arbitrary: s i)
  case Nil
  then show ?case by simp
next
  case (Cons op ops)
  obtain r s' where e: "exec_op cfg op s = (r, s')" by (cases "exec_op cfg op s")
  with exec_op_invariant [of cfg op s] Cons.prems(1) have b: "best_individual s' = None"
    by simp
  obtain rs s'' where e2: "run cfg ops s' = (rs, s'')" by (cases "run cfg ops s'")
  show ?case
  proof (cases i)
    case 0
    with Cons.prems(3) have "op = Write_statistics t" by simp
    with e write_statistics_no_best [OF Cons.prems(1), of cfg t] have "r = Returned_bool False"
      using fst_case_outcome [of bool_outcome "write_statistics cfg t s"]
      by (simp add: bool_outcome_def)
    with 0 e e2 show ?thesis by simp
  next
    case (Suc j)
    with Cons.prems have "j < length ops" "ops ! j = Write_statistics t" by simp_all
    from Cons.IH [OF b this] e e2 Suc show ?thesis by simp
  qed
qed

lemma init_state:
  "init cfg now =
     Inr \<lparr>backend = initialise_backend cfg,
          output_variables = [(''Random_Seed'', \<lparr>ov_name = ''Random_Seed'', ov_value = seed cfg\<rparr>)],
          variable_factories =
            [(''Length'', ChromosomeLengthOutputVariableFactory),
             (''Size'', ChromosomeSizeOutputVariableFactory),
             (''Coverage'', ChromosomeCoverageOutputVariableFactory),
             (''Fitness'', ChromosomeFitnessOutputVariableFactory)],
          sequence_output_variable_factories =
            [(''CoverageTimeline'',
              new_sequence_factory CoverageSequenceOutputVariableFactory CoverageTimeline),
             (''SizeTimeline'',
              new_sequence_factory SizeSequenceOutputVariableFactory SizeTimeline),
             (''LengthTimeline'',
              new_sequence_factory LengthSequenceOutputVariableFactory LengthTimeline),
             (''TotalExceptionsTimeline'', get_integer TotalExceptionsTimeline)],
          start_time = now, best_individual = None, logged = []\<rparr>"
  by (simp add: init_def init_factories_def set_output_variable_for_runtime_variable_def
      set_output_variable_def fill_sequence_output_variable_factories_def)

section \<open>The best individual\<close>

text \<open>
  Claim C2. In the code as given no operation assigns \<^verbatim>\<open>_best_individual\<close>: the
  constructor returns a collector without a best individual, after every sequence of
  operations on it there is still none, every \<^verbatim>\<open>write_statistics\<close> in such a
  sequence returns \<^verbatim>\<open>False\<close>, and so does one called afterwards, however many
  individuals were reported.
\<close>

theorem best_individual_never_recorded:
  "\<exists>s0. init cfg now = Inr s0 \<and> best_individual s0 = None \<and>
     (\<forall>ops. best_individual (snd (run cfg ops s0)) = None \<and>
        (\<forall>i t. i < length ops \<and> ops ! i = Write_statistics t \<longrightarrow>
           fst (run cfg ops s0) ! i = Returned_bool False) \<and>
        (\<forall>cfg' now'. fst (write_statistics cfg' now' (snd (run cfg ops s0))) = Inr False))"
proof -
  obtain s0 where s0: "init cfg now = Inr s0" and b: "best_individual s0 = None"
    by (simp add: init_state)
  have "best_individual (snd (run cfg ops s0)) = None" for ops
    using run_invariant [of cfg ops s0] b by simp
  moreover have "fst (run cfg ops s0) ! i = Returned_bool False"
    if "i < length ops \<and> ops ! i = Write_statistics t" for ops i t
    using run_write_outcomes [OF b, of i ops t cfg] that by simp
  moreover have "fst (write_statistics cfg' now' (snd (run cfg ops s0))) = Inr False"
    for ops cfg' now'
    using run_invariant [of cfg ops s0] b by (simp add: write_statistics_no_best)
  ultimately show ?thesis using s0 b by blast
qed


theorem best_individual_never_recorded_witness:
  "\<exists>s0. init \<lparr>statistics_backend = CSV, seed = (Int_value 3 :: unit py_value),
               cfg_output_variables = None\<rparr> 0 = Inr s0 \<and>
     best_individual
       (snd (run \<lparr>statistics_backend = CSV, seed = Int_value 3, cfg_output_variables = None\<rparr>
               [Current_individual
                  (Test_suite \<lparr>size_tsc = 2, total_length_of_test_cases = 5,
                               coverage = (), fitness = ()\<rparr>),
                Write_statistics 9] s0)) = None \<and>
     fst (run \<lparr>statistics_backend = CSV, seed = Int_value 3, cfg_output_variables = None\<rparr>
            [Current_individual
               (Test_suite \<lparr>size_tsc = 2, total_length_of_test_cases = 5,
                            coverage = (), fitness = ()\<rparr>),
             Write_statistics 9] s0) ! 1 = Returned_bool False"
proof -
  let ?cfg = "\<lparr>statistics_backend = CSV, seed = (Int_value 3 :: unit py_value),
               cfg_output_variables = None\<rparr>"
  let ?ops = "[Current_individual
                 (Test_suite \<lparr>size_tsc = 2, total_length_of_test_cases = 5,
                              coverage = (), fitness = ()\<rparr>),
               Write_statistics 9]"
  from best_individual_never_recorded [of ?cfg 0]
  obtain s0 where i: "init ?cfg 0 = Inr s0"
    and a: "\<forall>ops. best_individual (snd (run ?cfg ops s0)) = None \<and>
        (\<forall>i t. i < length ops \<and> ops ! i = Write_statistics t \<longrightarrow>
           fst (run ?cfg ops s0) ! i = Returned_bool False) \<and>
        (\<forall>cfg' now'. fst (write_statistics cfg' now' (snd (run ?cfg ops s0))) = Inr False)"
    by blast
  from a have b: "best_individual (snd (run ?cfg ?ops s0)) = None" by blast
  from a have "\<forall>i t. i < length ?ops \<and> ?ops ! i = Write_statistics t \<longrightarrow>
           fst (run ?cfg ?ops s0) ! i = Returned_bool False" by blast
  then have "1 < length ?ops \<and> ?ops ! 1 = Write_statistics 9 \<longrightarrow>
           fst (run ?cfg ?ops s0) ! 1 = Returned_bool False" by blast
  then have "fst (run ?cfg ?ops s0) ! 1 = Returned_bool False" by simp
  with i b show ?thesis by blast
qed

section \<open>The write path\<close>

text \<open>
  Claim C3. \<^verbatim>\<open>write_statistics\<close> returns \<^verbatim>\<open>False\<close>, and raises nothing, whenever no
  backend is configured or no best individual was recorded; in both cases the backend is
  left as it was, so \<^verbatim>\<open>write_data\<close> is not called and no data reaches it.
\<close>

theorem write_statistics_fails_without_backend_or_best_individual:
  assumes "backend s = None \<or> best_individual s = None"
  shows "fst (write_statistics cfg now s) = Inr False \<and>
         backend (snd (write_statistics cfg now s)) = backend s"
  using assms by (auto simp: write_statistics_def Let_def split: option.splits)

theorem write_statistics_fails_witness:
  "fst (write_statistics
          \<lparr>statistics_backend = NONE, seed = (Int_value 3 :: unit py_value),
           cfg_output_variables = None\<rparr> 7
          \<lparr>backend = None, output_variables = [], variable_factories = [],
           sequence_output_variable_factories = [], start_time = 0,
           best_individual =
             Some \<lparr>size_tsc = 2, total_length_of_test_cases = 5, coverage = (), fitness = ()\<rparr>,
           logged = []\<rparr>) = Inr False \<and>
   fst (write_statistics
          \<lparr>statistics_backend = CSV, seed = (Int_value 3 :: unit py_value),
           cfg_output_variables = None\<rparr> 7
          \<lparr>backend = Some (new_backend CSVStatisticsBackend), output_variables = [],
           variable_factories = [], sequence_output_variable_factories = [], start_time = 0,
           best_individual = None, logged = []\<rparr>) = Inr False \<and>
   backend (snd (write_statistics
          \<lparr>statistics_backend = CSV, seed = (Int_value 3 :: unit py_value),
           cfg_output_variables = None\<rparr> 7
          \<lparr>backend = Some (new_backend CSVStatisticsBackend), output_variables = [],
           variable_factories = [], sequence_output_variable_factories = [], start_time = 0,
           best_individual = None, logged = []\<rparr>)) =
     Some \<lparr>backend_class = CSVStatisticsBackend, received = []\<rparr>"
  using write_statistics_fails_without_backend_or_best_individual
          [of "\<lparr>backend = None, output_variables = [], variable_factories = [],
                sequence_output_variable_factories = [], start_time = 0,
                best_individual =
                  Some \<lparr>size_tsc = 2, total_length_of_test_cases = 5, coverage = (),
                        fitness = ()\<rparr>,
                logged = []\<rparr>"
              "\<lparr>statistics_backend = NONE, seed = (Int_value 3 :: unit py_value),
                cfg_output_variables = None\<rparr>" 7]
        write_statistics_fails_without_backend_or_best_individual
          [of "\<lparr>backend = Some (new_backend CSVStatisticsBackend), output_variables = [],
                variable_factories = [], sequence_output_variable_factories = [],
                start_time = 0, best_individual = None, logged = []\<rparr>"
              "\<lparr>statistics_backend = CSV, seed = (Int_value 3 :: unit py_value),
                cfg_output_variables = None\<rparr>" 7]
  by (simp add: new_backend_def)

text \<open>
  Claim C6. When a backend is configured and a best individual is recorded, but a
  requested name is resolved by none of the three sources at the time of the resolution
  (so it is not \<^verbatim>\<open>total_time\<close>, which \<^verbatim>\<open>write_statistics\<close> has just set),
  \<^verbatim>\<open>write_statistics\<close> logs the error of \<^verbatim>\<open>_get_output_variables\<close>, still calls
  \<^verbatim>\<open>write_data\<close> with the empty mapping and returns \<^verbatim>\<open>True\<close>.
\<close>

theorem write_statistics_succeeds_with_unresolved_name:
  assumes "backend s = Some b" and "best_individual s = Some ind"
    and "n \<in> set (get_output_variable_names cfg)"
    and "\<not> resolvable s n" and "n \<noteq> ''total_time''"
  shows "fst (write_statistics cfg now s) = Inr True \<and>
         backend (snd (write_statistics cfg now s)) = Some (write_data [] b) \<and>
         (\<exists>m \<in> set (get_output_variable_names cfg).
            last (logged (snd (write_statistics cfg now s))) =
              (ERROR, ''No obtained value for output variable '' @ m))"
proof -
  let ?s0 = "log INFO ''Writing statistics'' s"
  let ?s1 = "?s0\<lparr>output_variables :=
                  AList.update (rv_name Total_time)
                    \<lparr>ov_name = rv_name Total_time,
                     ov_value = Int_value (now - start_time ?s0)\<rparr>
                    (output_variables ?s0)\<rparr>"
  let ?ns = "get_output_variable_names cfg"
  let ?R = "resolve_names ?s1 ind False ?ns []"
  have "\<not> resolvable ?s1 n"
    using assms(4,5) by (simp add: resolvable_def update_conv')
  with assms(3) have ex: "\<exists>m \<in> set ?ns. \<not> resolvable ?s1 m" by blast
  have "\<not> False" by simp
  from resolve_names_abort [OF this ex, of ind "[]"]
  obtain m where m: "m \<in> set ?ns" and empty: "fst ?R = []"
    and st: "snd ?R = log ERROR (''No obtained value for output variable '' @ m) ?s1"
    by blast
  have R: "?R = ([], log ERROR (''No obtained value for output variable '' @ m) ?s1)"
    using empty st by (cases ?R) simp
  have w: "write_statistics cfg now s =
           (Inr True,
            (log ERROR (''No obtained value for output variable '' @ m) ?s1)
              \<lparr>backend := Some (write_data [] b)\<rparr>)"
    using assms(1,2) R by (simp add: write_statistics_def Let_def get_output_variables_def)
  show ?thesis using m by (auto simp: w)
qed

theorem write_statistics_succeeds_with_unresolved_name_witness:
  "fst (write_statistics
          \<lparr>statistics_backend = CSV, seed = (Int_value 3 :: unit py_value),
           cfg_output_variables = None\<rparr> 7
          \<lparr>backend = Some (new_backend CSVStatisticsBackend), output_variables = [],
           variable_factories = [(''Coverage'', ChromosomeCoverageOutputVariableFactory)],
           sequence_output_variable_factories = [], start_time = 0,
           best_individual =
             Some \<lparr>size_tsc = 2, total_length_of_test_cases = 5, coverage = (), fitness = ()\<rparr>,
           logged = []\<rparr>) = Inr True \<and>
   backend (snd (write_statistics
          \<lparr>statistics_backend = CSV, seed = (Int_value 3 :: unit py_value),
           cfg_output_variables = None\<rparr> 7
          \<lparr>backend = Some (new_backend CSVStatisticsBackend), output_variables = [],
           variable_factories = [(''Coverage'', ChromosomeCoverageOutputVariableFactory)],
           sequence_output_variable_factories = [], start_time = 0,
           best_individual =
             Some \<lparr>size_tsc = 2, total_length_of_test_cases = 5, coverage = (), fitness = ()\<rparr>,
           logged = []\<rparr>)) =
     Some \<lparr>backend_class = CSVStatisticsBackend, received = [[]]\<rparr>"
  using write_statistics_succeeds_with_unresolved_name
          [of "\<lparr>backend = Some (new_backend CSVStatisticsBackend), output_variables = [],
                variable_factories = [(''Coverage'', ChromosomeCoverageOutputVariableFactory)],
                sequence_output_variable_factories = [], start_time = 0,
                best_individual =
                  Some \<lparr>size_tsc = 2, total_length_of_test_cases = 5, coverage = (),
                        fitness = ()\<rparr>,
                logged = []\<rparr>"
              "new_backend CSVStatisticsBackend"
              "\<lparr>size_tsc = 2, total_length_of_test_cases = 5, coverage = (), fitness = ()\<rparr>"
              "''TARGET_CLASS''"
              "\<lparr>statistics_backend = CSV, seed = (Int_value 3 :: unit py_value),
                cfg_output_variables = None\<rparr>" 7]
  by (simp add: new_backend_def write_data_def resolvable_def get_output_variable_names_def
      get_all_output_variable_names_def)

section \<open>Direct values, factories and missing names\<close>





lemma example_names:
  "get_output_variable_names example_configuration = [''Coverage'', ''Size'', ''CoverageTimeline'']"
  "get_output_variable_names example_configuration_missing = [''Coverage'', ''Bogus'', ''Size'']"
  by (simp_all add: get_output_variable_names_def example_configuration_def
      example_configuration_missing_def strip_def isspace_def)





lemma resolve_names_abort_first:
  "\<not> skip \<Longrightarrow> \<forall>x \<in> set pre. resolvable s x \<Longrightarrow> \<not> resolvable s m \<Longrightarrow>
   resolve_names s ind skip (pre @ m # post) vars =
     ([], s\<lparr>logged := logged s @ [(ERROR, ''No obtained value for output variable '' @ m)]\<rparr>)"
proof (induction pre arbitrary: vars)
  case Nil
  then show ?case by (simp add: resolvable_def log_def)
next
  case (Cons a pre)
  from Cons.prems(2) have ra: "resolvable s a" and rp: "\<forall>x \<in> set pre. resolvable s x"
    by simp_all
  from ra obtain vars' where
    "resolve_names s ind skip (a # pre @ m # post) vars =
       resolve_names s ind skip (pre @ m # post) vars'"
    using resolve_names_Cons_continue [of skip s a ind "pre @ m # post" vars] by blast
  with Cons.IH [OF Cons.prems(1) rp Cons.prems(3), of vars'] show ?case by simp
qed

lemma first_unresolvable:
  "\<exists>x \<in> set ns. \<not> resolvable s x \<Longrightarrow>
   \<exists>pre m post. ns = pre @ m # post \<and> (\<forall>x \<in> set pre. resolvable s x) \<and> \<not> resolvable s m"
  using split_list_first_prop [of ns "\<lambda>x. \<not> resolvable s x"] by auto

text \<open>
  Claim C5. For a requested name that none of the three sources resolves: with
  \<open>skip_missing\<close> set, the loop of \<^verbatim>\<open>_get_output_variables\<close> stores an output variable
  with the empty string as its value under that name and continues with the next name;
  nothing is logged, the name is a key of the result, and it maps to the empty-valued
  variable unless a time line requested as well expands into a variable of that very
  name. Without \<open>skip_missing\<close> the result is the empty mapping and exactly one record is
  added to the log, the error that names the first requested name that no source
  resolves; nothing else of the collector changes.
\<close>

theorem missing_name_is_skipped_or_aborts:
  assumes "n \<in> set (get_output_variable_names cfg)" and "\<not> resolvable s n"
  shows
    "(skip_missing \<longrightarrow>
        (\<forall>rest variables.
           resolve_names s ind skip_missing (n # rest) variables =
             resolve_names s ind skip_missing rest
               (AList.update n \<lparr>ov_name = n, ov_value = Str_value []\<rparr> variables)) \<and>
        snd (get_output_variables cfg ind skip_missing s) = s \<and>
        logged (snd (get_output_variables cfg ind skip_missing s)) = logged s \<and>
        n \<in> fst ` set (fst (get_output_variables cfg ind skip_missing s)) \<and>
        (n \<notin> set (expansion_names s (get_output_variable_names cfg)) \<longrightarrow>
           map_of (fst (get_output_variables cfg ind skip_missing s)) n =
             Some \<lparr>ov_name = n, ov_value = Str_value []\<rparr>)) \<and>
     (\<not> skip_missing \<longrightarrow>
        fst (get_output_variables cfg ind skip_missing s) = [] \<and>
        (\<exists>pre m post.
           get_output_variable_names cfg = pre @ m # post \<and>
           (\<forall>x \<in> set pre. resolvable s x) \<and> \<not> resolvable s m \<and>
           logged (snd (get_output_variables cfg ind skip_missing s)) =
             logged s @ [(ERROR, ''No obtained value for output variable '' @ m)] \<and>
           snd (get_output_variables cfg ind skip_missing s) =
             s\<lparr>logged :=
                 logged s @ [(ERROR, ''No obtained value for output variable '' @ m)]\<rparr>))"
proof (intro conjI impI allI)
  let ?ns = "get_output_variable_names cfg"
  from assms(2) have un: "map_of (output_variables s) n = None"
    "map_of (variable_factories s) n = None"
    "map_of (sequence_output_variable_factories s) n = None"
    by (simp_all add: resolvable_def)
  assume skip: skip_missing
  then have ok: "skip_missing \<or> (\<forall>m \<in> set ?ns. resolvable s m)" by simp
  show "resolve_names s ind skip_missing (n # rest) variables =
          resolve_names s ind skip_missing rest
            (AList.update n \<lparr>ov_name = n, ov_value = Str_value []\<rparr> variables)"
    for rest variables
    using un skip by simp
  show st: "snd (get_output_variables cfg ind skip_missing s) = s"
    unfolding get_output_variables_def using ok by (rule resolve_names_complete)
  show "logged (snd (get_output_variables cfg ind skip_missing s)) = logged s"
    by (simp add: st)
  show "n \<in> fst ` set (fst (get_output_variables cfg ind skip_missing s))"
    unfolding get_output_variables_def
    using resolve_names_keys [OF ok assms(1), of ind "[]"] un by simp
  assume ns: "n \<notin> set (expansion_names s ?ns)"
  show "map_of (fst (get_output_variables cfg ind skip_missing s)) n =
          Some \<lparr>ov_name = n, ov_value = Str_value []\<rparr>"
    unfolding get_output_variables_def
    using resolve_names_lookup [OF ok ns, of ind "[]"] assms(1) un by simp
next
  let ?ns = "get_output_variable_names cfg"
  assume no: "\<not> skip_missing"
  from assms have "\<exists>x \<in> set ?ns. \<not> resolvable s x" by blast
  then obtain pre m post where d: "?ns = pre @ m # post"
    and rp: "\<forall>x \<in> set pre. resolvable s x" and um: "\<not> resolvable s m"
    using first_unresolvable by blast
  have e: "get_output_variables cfg ind skip_missing s =
        ([], s\<lparr>logged := logged s @ [(ERROR, ''No obtained value for output variable '' @ m)]\<rparr>)"
    unfolding get_output_variables_def d
    using no rp um by (rule resolve_names_abort_first)
  show "fst (get_output_variables cfg ind skip_missing s) = []" by (simp add: e)
  show "\<exists>pre m post.
           ?ns = pre @ m # post \<and>
           (\<forall>x \<in> set pre. resolvable s x) \<and> \<not> resolvable s m \<and>
           logged (snd (get_output_variables cfg ind skip_missing s)) =
             logged s @ [(ERROR, ''No obtained value for output variable '' @ m)] \<and>
           snd (get_output_variables cfg ind skip_missing s) =
             s\<lparr>logged :=
                 logged s @ [(ERROR, ''No obtained value for output variable '' @ m)]\<rparr>"
    using d rp um by (intro exI [of _ pre] exI [of _ m] exI [of _ post]) (simp add: e)
qed

theorem missing_name_is_skipped_or_aborts_witness:
  "fst (get_output_variables example_configuration_missing example_suite True
          example_collector) =
     [(''Coverage'', \<lparr>ov_name = ''Coverage'', ov_value = Int_value 42\<rparr>),
      (''Bogus'', \<lparr>ov_name = ''Bogus'', ov_value = Str_value []\<rparr>),
      (''Size'', \<lparr>ov_name = ''Size'', ov_value = Int_value 2\<rparr>)] \<and>
   map_of (fst (get_output_variables example_configuration_missing example_suite True
                  example_collector)) ''Bogus'' =
     Some \<lparr>ov_name = ''Bogus'', ov_value = Str_value []\<rparr> \<and>
   logged (snd (get_output_variables example_configuration_missing example_suite True
                  example_collector)) = [] \<and>
   fst (get_output_variables example_configuration_missing example_suite False
          example_collector) = [] \<and>
   logged (snd (get_output_variables example_configuration_missing example_suite False
                  example_collector)) =
     [(ERROR, ''No obtained value for output variable Bogus'')]"
proof -
  have a: "''Bogus'' \<in> set (get_output_variable_names example_configuration_missing)"
    by (simp add: example_names)
  have b: "\<not> resolvable example_collector ''Bogus''"
    by (simp add: resolvable_def example_collector_def)
  have c: "''Bogus'' \<notin> set (expansion_names example_collector
                               (get_output_variable_names example_configuration_missing))"
    by (simp add: example_names expansion_names_def example_collector_def)
  have r: "\<And>m. m \<in> set (get_output_variable_names example_configuration_missing) \<Longrightarrow>
             \<not> resolvable example_collector m \<Longrightarrow> m = ''Bogus''"
    by (auto simp: example_names resolvable_def example_collector_def)
  have l: "logged example_collector = []" by (simp add: example_collector_def)
  note t = missing_name_is_skipped_or_aborts [OF a b, of True example_suite]
  note f = missing_name_is_skipped_or_aborts [OF a b, of False example_suite]
  from t c have 1: "map_of (fst (get_output_variables example_configuration_missing
                      example_suite True example_collector)) ''Bogus'' =
                    Some \<lparr>ov_name = ''Bogus'', ov_value = Str_value []\<rparr>"
    and 4: "logged (snd (get_output_variables example_configuration_missing example_suite
                           True example_collector)) = []"
    by (simp_all add: l)
  from f have 5: "fst (get_output_variables example_configuration_missing example_suite False
                         example_collector) = []"
    by simp
  from f obtain pre m post where
    d: "get_output_variable_names example_configuration_missing = pre @ m # post"
    and um: "\<not> resolvable example_collector m"
    and lg: "logged (snd (get_output_variables example_configuration_missing example_suite
                            False example_collector)) =
             logged example_collector @
               [(ERROR, ''No obtained value for output variable '' @ m)]"
    by auto
  from d have "m \<in> set (get_output_variable_names example_configuration_missing)" by simp
  then have "m = ''Bogus''" using um by (rule r)
  with lg have 2: "logged (snd (get_output_variables example_configuration_missing
                      example_suite False example_collector)) =
                   [(ERROR, ''No obtained value for output variable Bogus'')]"
    by (simp add: l)
  have 3: "fst (get_output_variables example_configuration_missing example_suite True
               example_collector) =
     [(''Coverage'', \<lparr>ov_name = ''Coverage'', ov_value = Int_value 42\<rparr>),
      (''Bogus'', \<lparr>ov_name = ''Bogus'', ov_value = Str_value []\<rparr>),
      (''Size'', \<lparr>ov_name = ''Size'', ov_value = Int_value 2\<rparr>)]"
    by (simp add: get_output_variables_def example_names example_collector_def
        example_suite_def get_variable_def)
  from 1 2 3 4 5 show ?thesis by simp
qed

section \<open>Setting an output variable\<close>

lemma registered_sequences:
  assumes "registered s"
  obtains g1 g2 g3 g4 where
    "sequence_output_variable_factories s =
       [(''CoverageTimeline'', g1), (''SizeTimeline'', g2), (''LengthTimeline'', g3),
        (''TotalExceptionsTimeline'', g4)]"
    and "sf_class g1 = CoverageSequenceOutputVariableFactory" "sf_variable g1 = CoverageTimeline"
    and "sf_class g2 = SizeSequenceOutputVariableFactory" "sf_variable g2 = SizeTimeline"
    and "sf_class g3 = LengthSequenceOutputVariableFactory" "sf_variable g3 = LengthTimeline"
    and "sf_class g4 = DirectSequenceOutputVariableFactory"
      "sf_variable g4 = TotalExceptionsTimeline"
  using assms unfolding registered_def by (auto simp: map_eq_Cons_conv)

lemma registered_direct:
  assumes "registered s" and "map_of (sequence_output_variable_factories s) n = Some var"
  shows "is_direct var \<longleftrightarrow> n = ''TotalExceptionsTimeline''"
proof -
  from assms(1) obtain g1 g2 g3 g4 where
    "sequence_output_variable_factories s =
       [(''CoverageTimeline'', g1), (''SizeTimeline'', g2), (''LengthTimeline'', g3),
        (''TotalExceptionsTimeline'', g4)]"
    and "sf_class g1 = CoverageSequenceOutputVariableFactory"
    and "sf_class g2 = SizeSequenceOutputVariableFactory"
    and "sf_class g3 = LengthSequenceOutputVariableFactory"
    and "sf_class g4 = DirectSequenceOutputVariableFactory"
    by (rule registered_sequences)
  with assms(2) show ?thesis
    by (auto simp: is_direct_def split: if_splits)
qed

lemma map_of_update_same: "map_of (AList.update k v al) k = Some v"
  by (simp add: update_conv')

text \<open>
  Claim C1, as the code has it. For every value \<open>v\<close> and every name \<open>n\<close> that is a key of
  the registered sequence factories, \<^verbatim>\<open>set_output_variable\<close> with
  \<^verbatim>\<open>OutputVariable(name=n, value=v)\<close> leaves the flat map \<^verbatim>\<open>_output_variables\<close> as it
  was, so it never creates an entry under \<open>n\<close> there. When the factory registered under
  \<open>n\<close> is a \<^verbatim>\<open>DirectSequenceOutputVariableFactory\<close>, the call returns and \<open>v\<close> is routed
  into that sequence's accumulator; otherwise the assertion of the method fails and
  nothing is changed. Of the names that \<^verbatim>\<open>__init__\<close> registers only
  \<^verbatim>\<open>TotalExceptionsTimeline\<close> has a direct factory.
\<close>

theorem set_output_variable_sequence_name:
  assumes "map_of (sequence_output_variable_factories s) n = Some var"
  shows
    "output_variables (snd (set_output_variable \<lparr>ov_name = n, ov_value = v\<rparr> s)) =
       output_variables s \<and>
     (is_direct var \<longrightarrow>
        set_output_variable \<lparr>ov_name = n, ov_value = v\<rparr> s =
          (Inr (),
           s\<lparr>sequence_output_variable_factories :=
               AList.update n (set_value v var) (sequence_output_variable_factories s)\<rparr>) \<and>
        map_of (sequence_output_variable_factories
                  (snd (set_output_variable \<lparr>ov_name = n, ov_value = v\<rparr> s))) n =
          Some (var\<lparr>sf_values := sf_values var @ [v]\<rparr>)) \<and>
     (\<not> is_direct var \<longrightarrow>
        set_output_variable \<lparr>ov_name = n, ov_value = v\<rparr> s = (Inl AssertionError, s)) \<and>
     (registered s \<longrightarrow> (is_direct var \<longleftrightarrow> n = ''TotalExceptionsTimeline''))"
proof (intro conjI impI)
  show "output_variables (snd (set_output_variable \<lparr>ov_name = n, ov_value = v\<rparr> s)) =
          output_variables s"
    using assms by (simp add: set_output_variable_def)
  show "set_output_variable \<lparr>ov_name = n, ov_value = v\<rparr> s = (Inl AssertionError, s)"
    if "\<not> is_direct var"
    using assms that by (simp add: set_output_variable_def)
  show "is_direct var \<longleftrightarrow> n = ''TotalExceptionsTimeline''" if "registered s"
    using that assms by (rule registered_direct)
next
  assume d: "is_direct var"
  then show e: "set_output_variable \<lparr>ov_name = n, ov_value = v\<rparr> s =
          (Inr (),
           s\<lparr>sequence_output_variable_factories :=
               AList.update n (set_value v var) (sequence_output_variable_factories s)\<rparr>)"
    using assms by (simp add: set_output_variable_def)
  show "map_of (sequence_output_variable_factories
                  (snd (set_output_variable \<lparr>ov_name = n, ov_value = v\<rparr> s))) n =
          Some (var\<lparr>sf_values := sf_values var @ [v]\<rparr>)"
    by (simp add: e map_of_update_same set_value_def)
qed

theorem set_output_variable_sequence_name_witness:
  "set_output_variable \<lparr>ov_name = ''TotalExceptionsTimeline'', ov_value = Int_value 7\<rparr>
     example_collector =
     (Inr (),
      example_collector
        \<lparr>sequence_output_variable_factories :=
           AList.update ''TotalExceptionsTimeline''
             \<lparr>sf_variable = TotalExceptionsTimeline,
              sf_class = DirectSequenceOutputVariableFactory,
              sf_values = [Int_value 0, Int_value 0, Int_value 7]\<rparr>
             (sequence_output_variable_factories example_collector)\<rparr>) \<and>
   output_variables
     (snd (set_output_variable \<lparr>ov_name = ''TotalExceptionsTimeline'', ov_value = Int_value 7\<rparr>
             example_collector)) = output_variables example_collector \<and>
   set_output_variable \<lparr>ov_name = ''SizeTimeline'', ov_value = Int_value 7\<rparr>
     example_collector = (Inl AssertionError, example_collector)"
  using set_output_variable_sequence_name
          [of example_collector "''TotalExceptionsTimeline''"
              "\<lparr>sf_variable = TotalExceptionsTimeline,
                sf_class = DirectSequenceOutputVariableFactory,
                sf_values = [Int_value 0, Int_value 0]\<rparr>" "Int_value 7"]
        set_output_variable_sequence_name
          [of example_collector "''SizeTimeline''"
              "\<lparr>sf_variable = SizeTimeline, sf_class = SizeSequenceOutputVariableFactory,
                sf_values = [Int_value 1, Int_value 2]\<rparr>" "Int_value 7"]
  by (simp add: example_collector_def is_direct_def set_value_def)

text \<open>
  Claim C1 as stated fails: on the example collector, whose sequence factories are the
  ones \<^verbatim>\<open>__init__\<close> registers, setting \<^verbatim>\<open>CoverageTimeline\<close> raises
  \<^verbatim>\<open>AssertionError\<close> and the value does not reach the accumulator.
\<close>

theorem set_output_variable_coverage_timeline_counterexample:
  "registered example_collector \<and>
   map_of (sequence_output_variable_factories example_collector) ''CoverageTimeline'' =
     Some \<lparr>sf_variable = CoverageTimeline, sf_class = CoverageSequenceOutputVariableFactory,
           sf_values = [Float_value 0, Float_value 1]\<rparr> \<and>
   fst (set_output_variable \<lparr>ov_name = ''CoverageTimeline'', ov_value = Float_value 2\<rparr>
          example_collector) = Inl AssertionError \<and>
   map_of (sequence_output_variable_factories
             (snd (set_output_variable
                     \<lparr>ov_name = ''CoverageTimeline'', ov_value = Float_value 2\<rparr>
                     example_collector))) ''CoverageTimeline'' =
     Some \<lparr>sf_variable = CoverageTimeline, sf_class = CoverageSequenceOutputVariableFactory,
           sf_values = [Float_value 0, Float_value 1]\<rparr>"
  by (simp add: example_collector_def registered_def set_output_variable_def is_direct_def)

section \<open>Reporting an individual\<close>

lemma registered_scalar_name_free:
  assumes "registered s" and "CHR ''T'' \<notin> set k"
  shows "map_of (sequence_output_variable_factories s) k = None"
proof -
  from assms(1) have "map fst (sequence_output_variable_factories s) =
      [''CoverageTimeline'', ''SizeTimeline'', ''LengthTimeline'', ''TotalExceptionsTimeline'']"
    using update_factory_view
    by (auto simp: registered_def map_eq_Cons_conv)
  then have "fst ` set (sequence_output_variable_factories s) =
      {''CoverageTimeline'', ''SizeTimeline'', ''LengthTimeline'', ''TotalExceptionsTimeline''}"
    by (metis list.set_map list.simps(15) empty_set)
  moreover have "k \<notin> {''CoverageTimeline'', ''SizeTimeline'', ''LengthTimeline'',
                      ''TotalExceptionsTimeline''}"
    using assms(2) by auto
  ultimately show ?thesis by (simp add: map_of_eq_None_iff)
qed

lemma current_individual_test_suite:
  assumes "backend s = Some b" and "registered s"
  shows "current_individual (Test_suite t) s =
     (Inr (),
      update_sequence_factories t
        ((log DEBUG ''Received individual'' s)
           \<lparr>output_variables :=
              AList.update ''Fitness''
                (get_variable ChromosomeFitnessOutputVariableFactory t)
                (AList.update ''Coverage''
                   (get_variable ChromosomeCoverageOutputVariableFactory t)
                   (AList.update ''Size''
                      (get_variable ChromosomeSizeOutputVariableFactory t)
                      (AList.update ''Length''
                         (get_variable ChromosomeLengthOutputVariableFactory t)
                         (output_variables s))))\<rparr>))"
proof -
  have free: "map_of (sequence_output_variable_factories s) ''Length'' = None"
    "map_of (sequence_output_variable_factories s) ''Size'' = None"
    "map_of (sequence_output_variable_factories s) ''Coverage'' = None"
    "map_of (sequence_output_variable_factories s) ''Fitness'' = None"
    using assms(2) by (simp_all add: registered_scalar_name_free)
  have fs: "map snd (variable_factories s) =
      [ChromosomeLengthOutputVariableFactory, ChromosomeSizeOutputVariableFactory,
       ChromosomeCoverageOutputVariableFactory, ChromosomeFitnessOutputVariableFactory]"
    using assms(2) by (simp add: registered_def)
  show ?thesis
    using assms(1) free
    by (simp add: current_individual_def fs set_output_variable_def get_variable_def)
qed

text \<open>
  Claim C9, as the code has it. When no backend is configured \<^verbatim>\<open>current_individual\<close>
  returns at once, whatever it is given: nothing is logged, stored or appended. With a
  backend, an argument that is not a test-suite chromosome makes it log a warning and
  return without raising; only the log changes. With a backend, in a collector with the
  factories of \<^verbatim>\<open>__init__\<close>, a test-suite chromosome makes it store under the name of
  every registered chromosome factory the variable that factory computes (overwriting
  what was there, other names untouched) and append the current value to the time series
  of every registered sequence factory.
\<close>

theorem current_individual_effect:
  "(backend s = None \<longrightarrow> current_individual individual s = (Inr (), s)) \<and>
   (backend s \<noteq> None \<longrightarrow>
      current_individual Other_individual s =
        (Inr (),
         s\<lparr>logged := logged s @ [(WARNING, ''SearchStatistics expected a TestSuiteChromosome'')]\<rparr>)) \<and>
   (backend s \<noteq> None \<and> registered s \<longrightarrow>
      fst (current_individual (Test_suite t) s) = Inr () \<and>
      (\<forall>(k, factory) \<in> set (variable_factories s).
         map_of (output_variables (snd (current_individual (Test_suite t) s))) k =
           Some \<lparr>ov_name = k, ov_value = get_data factory t\<rparr>) \<and>
      (\<forall>k. map_of (variable_factories s) k = None \<longrightarrow>
         map_of (output_variables (snd (current_individual (Test_suite t) s))) k =
           map_of (output_variables s) k) \<and>
      sequence_output_variable_factories (snd (current_individual (Test_suite t) s)) =
        map (\<lambda>(k, g). (k, g\<lparr>sf_values := sf_values g @ [get_value g t]\<rparr>))
          (sequence_output_variable_factories s) \<and>
      backend (snd (current_individual (Test_suite t) s)) = backend s)"
proof (intro conjI impI)
  show "current_individual individual s = (Inr (), s)" if "backend s = None"
    using that by (simp add: current_individual_def)
  show "current_individual Other_individual s =
        (Inr (),
         s\<lparr>logged := logged s @ [(WARNING, ''SearchStatistics expected a TestSuiteChromosome'')]\<rparr>)"
    if "backend s \<noteq> None"
    using that by (auto simp: current_individual_def log_def)
next
  assume a: "backend s \<noteq> None \<and> registered s"
  then obtain b where b: "backend s = Some b" and reg: "registered s" by auto
  note e = current_individual_test_suite [OF b reg, of t]
  have vf: "variable_factories s =
        [(''Length'', ChromosomeLengthOutputVariableFactory),
         (''Size'', ChromosomeSizeOutputVariableFactory),
         (''Coverage'', ChromosomeCoverageOutputVariableFactory),
         (''Fitness'', ChromosomeFitnessOutputVariableFactory)]"
    using reg by (simp add: registered_def)
  show "fst (current_individual (Test_suite t) s) = Inr ()" by (simp add: e)
  show "\<forall>(k, factory) \<in> set (variable_factories s).
         map_of (output_variables (snd (current_individual (Test_suite t) s))) k =
           Some \<lparr>ov_name = k, ov_value = get_data factory t\<rparr>"
    by (simp add: e vf update_conv' get_variable_def)
  show "\<forall>k. map_of (variable_factories s) k = None \<longrightarrow>
         map_of (output_variables (snd (current_individual (Test_suite t) s))) k =
           map_of (output_variables s) k"
    by (simp add: e vf update_conv')
  show "sequence_output_variable_factories (snd (current_individual (Test_suite t) s)) =
        map (\<lambda>(k, g). (k, g\<lparr>sf_values := sf_values g @ [get_value g t]\<rparr>))
          (sequence_output_variable_factories s)"
    by (simp add: e update_sequence_factories_def update_factory_def)
  show "backend (snd (current_individual (Test_suite t) s)) = backend s" by (simp add: e)
qed


theorem current_individual_effect_witness:
  "current_individual Other_individual example_collector_no_backend =
     (Inr (), example_collector_no_backend) \<and>
   current_individual Other_individual example_collector =
     (Inr (),
      example_collector
        \<lparr>logged := [(WARNING, ''SearchStatistics expected a TestSuiteChromosome'')]\<rparr>) \<and>
   fst (current_individual (Test_suite example_suite) example_collector) = Inr () \<and>
   map_of (output_variables (snd (current_individual (Test_suite example_suite)
                                    example_collector))) ''Coverage'' =
     Some \<lparr>ov_name = ''Coverage'', ov_value = Float_value 1\<rparr> \<and>
   map_of (output_variables (snd (current_individual (Test_suite example_suite)
                                    example_collector))) ''Random_Seed'' =
     Some \<lparr>ov_name = ''Random_Seed'', ov_value = Int_value 3\<rparr> \<and>
   map (\<lambda>(k, g). (k, sf_values g))
     (sequence_output_variable_factories
        (snd (current_individual (Test_suite example_suite) example_collector))) =
     [(''CoverageTimeline'', [Float_value 0, Float_value 1, Float_value 1]),
      (''SizeTimeline'', [Int_value 1, Int_value 2, Int_value 2]),
      (''LengthTimeline'', [Int_value 4, Int_value 5, Int_value 5]),
      (''TotalExceptionsTimeline'', [Int_value 0, Int_value 0, Int_value 0])]"
  using current_individual_effect [of example_collector Other_individual example_suite]
    current_individual_effect [of example_collector_no_backend Other_individual example_suite]
  by (simp add: example_collector_def example_collector_no_backend_def example_suite_def
      registered_def get_value_def)

text \<open>
  Claim C9 as stated fails when no backend is configured: on the collector that
  \<^verbatim>\<open>__init__\<close> builds without a backend, an argument that is not a test-suite
  chromosome logs no warning, and a test-suite chromosome stores no scalar and appends
  nothing.
\<close>

theorem current_individual_no_backend_counterexample:
  "init example_configuration_no_backend 100 = Inr example_collector_no_backend \<and>
   logged (snd (current_individual Other_individual example_collector_no_backend)) = [] \<and>
   current_individual (Test_suite example_suite) example_collector_no_backend =
     (Inr (), example_collector_no_backend) \<and>
   map_of (output_variables example_collector_no_backend) ''Coverage'' = None \<and>
   map (\<lambda>(k, g). (k, sf_values g))
     (sequence_output_variable_factories example_collector_no_backend) =
     [(''CoverageTimeline'', []), (''SizeTimeline'', []), (''LengthTimeline'', []),
      (''TotalExceptionsTimeline'', [])]"
  by (simp add: init_state example_configuration_no_backend_def
      example_collector_no_backend_def current_individual_def initialise_backend_def
      new_sequence_factory_def get_integer_def)

section \<open>Assertions: clone and accept\<close>

lemma clone_source_None [simp]: "clone_source clone_reference None tc k = None"
  by (simp add: clone_source_def)

lemma clone_source_Some [simp]:
  "clone_source clone_reference (Some r) tc k = Some (clone_reference r tc k)"
  by (simp add: clone_source_def)

text \<open>
  Claim C7. For every assertion, target test case and offset, \<^verbatim>\<open>clone\<close> gives an
  assertion of the same class with the same value (and, for the field variant, the same
  field and owners); when the source is present the clone's source is the original
  source cloned into the target test case at the offset, and when it is absent the
  clone's source is absent too.
\<close>

theorem clone_copies_value_and_rebinds_source:
  "class_of (clone clone_reference a new_test_case offset) = class_of a \<and>
   value_of (clone clone_reference a new_test_case offset) = value_of a \<and>
   field (clone clone_reference a new_test_case offset) = field a \<and>
   owners (clone clone_reference a new_test_case offset) = owners a \<and>
   source (clone clone_reference a new_test_case offset) =
     (case source a of
        Some reference \<Rightarrow> Some (clone_reference reference new_test_case offset)
      | None \<Rightarrow> None)"
  by (cases a) (simp_all add: clone_source_def)

theorem clone_copies_value_and_rebinds_source_witness:
  "clone (\<lambda>reference tc k. ''cloned_ref'')
     (FieldAssertion (Some ''source'') (1337 :: int) ''field'' None) ''new_test_case'' 20 =
     FieldAssertion (Some ''cloned_ref'') 1337 ''field'' None \<and>
   source (clone (\<lambda>reference tc k. reference @ ''@'' @ tc)
             (ComplexAssertion (Some ''var_0'') [1, 2 :: int]) ''tc'' 3) = Some ''var_0@tc'' \<and>
   value_of (clone (\<lambda>reference tc k. reference @ ''@'' @ tc)
               (ComplexAssertion (Some ''var_0'') [1, 2 :: int]) ''tc'' 3) = [1, 2] \<and>
   source (clone (\<lambda>reference tc k. reference @ ''@'' @ tc)
             (ComplexAssertion None [1, 2 :: int]) ''tc'' 3) = None"
  using clone_copies_value_and_rebinds_source
          [of "\<lambda>reference tc k. ''cloned_ref''"
              "FieldAssertion (Some ''source'') (1337 :: int) ''field'' None"
              "''new_test_case''" 20]
        clone_copies_value_and_rebinds_source
          [of "\<lambda>reference tc k. reference @ ''@'' @ tc"
              "ComplexAssertion (Some ''var_0'') [1, 2 :: int]" "''tc''" 3]
        clone_copies_value_and_rebinds_source
          [of "\<lambda>reference tc k. reference @ ''@'' @ tc"
              "ComplexAssertion None [1, 2 :: int]" "''tc''" 3]
  by simp

text \<open>
  Claim C8. For every assertion and every visitor, \<^verbatim>\<open>accept\<close> invokes exactly one
  method of the visitor, the one of the assertion's own variant, with the assertion
  itself: a complex assertion calls \<^verbatim>\<open>visit_complex_assertion\<close>, a field assertion
  \<^verbatim>\<open>visit_field_assertion\<close>, a primitive assertion \<^verbatim>\<open>visit_primitive_assertion\<close>. On
  a visitor that records its calls this is one new call, of that method, and no other.
\<close>

theorem accept_invokes_matching_visitor_method:
  "accept (ComplexAssertion src v) visitor st =
     visit_complex_assertion visitor (ComplexAssertion src v) st \<and>
   accept (FieldAssertion src v fld own) visitor st =
     visit_field_assertion visitor (FieldAssertion src v fld own) st \<and>
   accept (PrimitiveAssertion src v) visitor st =
     visit_primitive_assertion visitor (PrimitiveAssertion src v) st \<and>
   accept a recording_visitor calls =
     calls @ [(case class_of a of
                 Complex_class \<Rightarrow> Visit_complex_assertion
               | Field_class \<Rightarrow> Visit_field_assertion
               | Primitive_class \<Rightarrow> Visit_primitive_assertion, a)] \<and>
   length (accept a recording_visitor calls) = Suc (length calls)"
  by (cases a) (simp_all add: recording_visitor_def)

theorem accept_invokes_matching_visitor_method_witness:
  "accept (FieldAssertion (Some ''source'') (1337 :: int) ''field'' None) recording_visitor [] =
     [(Visit_field_assertion, FieldAssertion (Some ''source'') 1337 ''field'' None)] \<and>
   accept (ComplexAssertion (Some ''source'') (1337 :: int)) recording_visitor [] =
     [(Visit_complex_assertion, ComplexAssertion (Some ''source'') 1337)]"
  using accept_invokes_matching_visitor_method
          [of "Some ''source''" "1337 :: int" recording_visitor "[]" "''field''" None
              "FieldAssertion (Some ''source'') (1337 :: int) ''field'' None" "[]"]
        accept_invokes_matching_visitor_method
          [of "Some ''source''" "1337 :: int" recording_visitor "[]" "''field''" None
              "ComplexAssertion (Some ''source'') (1337 :: int)" "[]"]
  by simp

end
